theory Spec2Isabelle
  imports Main
begin

section \<open>Strings, character classes and the statement patterns\<close>

text \<open>
  The interpreter of \<^verbatim>\<open>src/playground/interpreter.js\<close> works on a list of source
  lines. Lines are modelled as \<^typ>\<open>string\<close>: a character of the model is a code unit
  of the JavaScript string, and the code units are taken to be below 256.

  Among these, \<^verbatim>\<open>\s\<close> and \<^verbatim>\<open>trim()\<close> see space, tab, line feed, vertical tab, form
  feed, carriage return and the no-break space; \<^verbatim>\<open>\w\<close> is an ASCII letter, a digit or
  the underscore; \<^verbatim>\<open>\d\<close> is a digit; the dot of a pattern is any character but line
  feed and carriage return.
\<close>

definition isSpace :: "char \<Rightarrow> bool" where
  "isSpace c =
     (c \<in> set [CHR '' '', CHR 0x09, CHR 0x0A, CHR 0x0B, CHR 0x0C, CHR 0x0D, CHR 0xA0])"

definition isDigit :: "char \<Rightarrow> bool" where
  "isDigit c = (c \<in> set ''0123456789'')"

definition isIdentStart :: "char \<Rightarrow> bool" where
  "isIdentStart c =
     (c \<in> set ''abcdefghijklmnopqrstuvwxyzABCDEFGHIJKLMNOPQRSTUVWXYZ_'')"

definition isWord :: "char \<Rightarrow> bool" where
  "isWord c = (isIdentStart c \<or> isDigit c)"

definition isDot :: "char \<Rightarrow> bool" where
  "isDot c = (c \<noteq> CHR 0x0A \<and> c \<noteq> CHR 0x0D)"

definition isQuote :: "char \<Rightarrow> bool" where
  "isQuote c = (c = CHR 0x22 \<or> c = CHR 0x27)"

text \<open>\<^verbatim>\<open>s.startsWith(p)\<close> and \<^verbatim>\<open>s.trim()\<close>.\<close>

definition startsWith :: "string \<Rightarrow> string \<Rightarrow> bool" where
  "startsWith p s = (take (length p) s = p)"

definition trim :: "string \<Rightarrow> string" where
  "trim s = dropWhile isSpace (rev (dropWhile isSpace (rev s)))"

text \<open>
  The tail \<^verbatim>\<open>\s+(.+)$\<close> (with \<open>m = 1\<close>) or \<^verbatim>\<open>\s*(.+)$\<close> (with \<open>m = 0\<close>) of a
  pattern, matched against the rest \<open>r\<close> of the line. The greedy run of white space
  takes every leading white-space character but gives the last one back when nothing
  else is left for the group; the group runs to the end of the line and holds no line
  terminator.
\<close>

definition restAfterSpaces :: "nat \<Rightarrow> string \<Rightarrow> string option" where
  "restAfterSpaces m r =
     (let k = length (takeWhile isSpace r);
          p = min k (length r - 1)
      in if r \<noteq> [] \<and> m \<le> p \<and> list_all isDot (drop p r)
         then Some (drop p r) else None)"

text \<open>\<^verbatim>\<open>/^(\w+)\s*=\s*(.+)$/\<close>: the name and the expression text.\<close>

definition assignMatch :: "string \<Rightarrow> (string \<times> string) option" where
  "assignMatch line =
     (let name = takeWhile isWord line;
          r = dropWhile isSpace (dropWhile isWord line)
      in if name \<noteq> [] \<and> startsWith ''='' r
         then map_option (Pair name) (restAfterSpaces 0 (tl r))
         else None)"

text \<open>
  \<^verbatim>\<open>/^let\s+(\w+)\s*=\s*(.+)$/\<close> and \<^verbatim>\<open>/^set\s+(\w+)\s*=\s*(.+)$/\<close>: the keyword, at
  least one white-space character, then the pattern of an assignment.
\<close>

definition declMatch :: "string \<Rightarrow> string \<Rightarrow> (string \<times> string) option" where
  "declMatch kw line =
     (let r = drop (length kw) line
      in if startsWith kw line \<and> takeWhile isSpace r \<noteq> []
         then assignMatch (dropWhile isSpace r)
         else None)"

text \<open>\<^verbatim>\<open>/^say\s+(.+)$/\<close> and \<^verbatim>\<open>/^return\s+(.+)$/\<close>.\<close>

definition kwArgMatch :: "string \<Rightarrow> string \<Rightarrow> string option" where
  "kwArgMatch kw line =
     (if startsWith kw line then restAfterSpaces 1 (drop (length kw) line) else None)"

text \<open>\<^verbatim>\<open>/^if\s+(.+):$/\<close> and \<^verbatim>\<open>/^while\s+(.+):$/\<close>: the line ends with a colon.\<close>

definition kwCondMatch :: "string \<Rightarrow> string \<Rightarrow> string option" where
  "kwCondMatch kw line =
     (let r = drop (length kw) line
      in if startsWith kw line \<and> r \<noteq> [] \<and> last r = CHR '':''
         then restAfterSpaces 1 (butlast r)
         else None)"

text \<open>\<^verbatim>\<open>/^repeat\s+(\d+):$/\<close>: the run of digits.\<close>

definition repeatMatch :: "string \<Rightarrow> string option" where
  "repeatMatch line =
     (let r = drop 6 line;
          r1 = dropWhile isSpace r;
          ds = takeWhile isDigit r1
      in if startsWith ''repeat'' line \<and> takeWhile isSpace r \<noteq> [] \<and> ds \<noteq> []
            \<and> dropWhile isDigit r1 = '':''
         then Some ds else None)"

text \<open>\<^verbatim>\<open>/^function\s+(\w+)\s*\(([^)]*)\):$/\<close>: the name and the parameter text.\<close>

definition funcMatch :: "string \<Rightarrow> (string \<times> string) option" where
  "funcMatch line =
     (let r = drop 8 line;
          r1 = dropWhile isSpace r;
          name = takeWhile isWord r1;
          r2 = dropWhile isSpace (dropWhile isWord r1);
          ps = takeWhile (\<lambda>c. c \<noteq> CHR '')'') (tl r2)
      in if startsWith ''function'' line \<and> takeWhile isSpace r \<noteq> [] \<and> name \<noteq> []
            \<and> startsWith ''('' r2
            \<and> dropWhile (\<lambda>c. c \<noteq> CHR '')'') (tl r2) = ''):''
         then Some (name, ps) else None)"

text \<open>\<^verbatim>\<open>/^(\w+)\((.*)\)$/\<close>: the name and the argument text.\<close>

definition callMatch :: "string \<Rightarrow> (string \<times> string) option" where
  "callMatch line =
     (let name = takeWhile isWord line;
          r = dropWhile isWord line
      in if name \<noteq> [] \<and> startsWith ''('' r \<and> tl r \<noteq> [] \<and> last (tl r) = CHR '')''
            \<and> list_all isDot (butlast (tl r))
         then Some (name, butlast (tl r)) else None)"

text \<open>\<^verbatim>\<open>/^["'].*["']$/.test(arg)\<close> of the \<^verbatim>\<open>say\<close> statement.\<close>

definition isQuoted :: "string \<Rightarrow> bool" where
  "isQuoted arg =
     (2 \<le> length arg \<and> isQuote (hd arg) \<and> isQuote (last arg)
      \<and> list_all isDot (butlast (tl arg)))"

text \<open>
  The statement forms of \<^verbatim>\<open>interpretBlock\<close>, in the order in which the source tries
  its patterns on the trimmed line; the first pattern that matches decides.
\<close>

datatype stmt =
    SLet string string
  | SSet string string
  | SAssign string string
  | SSay string
  | SIf string
  | SElse
  | SRepeat string
  | SWhile string
  | SFunction string string
  | SReturn string
  | SCall string string
  | SUnknown

definition classify :: "string \<Rightarrow> stmt" where
  "classify line =
     (case declMatch ''let'' line of Some (n, x) \<Rightarrow> SLet n x | None \<Rightarrow>
     (case declMatch ''set'' line of Some (n, x) \<Rightarrow> SSet n x | None \<Rightarrow>
     (case assignMatch line of Some (n, x) \<Rightarrow> SAssign n x | None \<Rightarrow>
     (case kwArgMatch ''say'' line of Some a \<Rightarrow> SSay a | None \<Rightarrow>
     (case kwCondMatch ''if'' line of Some c \<Rightarrow> SIf c | None \<Rightarrow>
     (if line = ''else:'' then SElse else
     (case repeatMatch line of Some ds \<Rightarrow> SRepeat ds | None \<Rightarrow>
     (case kwCondMatch ''while'' line of Some c \<Rightarrow> SWhile c | None \<Rightarrow>
     (case funcMatch line of Some (n, ps) \<Rightarrow> SFunction n ps | None \<Rightarrow>
     (case kwArgMatch ''return'' line of Some x \<Rightarrow> SReturn x | None \<Rightarrow>
     (case callMatch line of Some (n, a) \<Rightarrow> SCall n a | None \<Rightarrow>
      SUnknown)))))))))))"

section \<open>Values\<close>

text \<open>
  The values of the language are the values of the host: numbers, strings, booleans,
  \<^verbatim>\<open>undefined\<close>, \<^verbatim>\<open>null\<close> and arrays. A number of the model is an integer; the
  host's other numbers, its objects and its functions are outside the model, and an
  operation that would produce or print one of them is \<open>Unmodelled\<close>.

  An operation of the source returns, throws or leaves the model. What is thrown is an
  \<^verbatim>\<open>Error\<close> with its message, the object \<^verbatim>\<open>{ type: 'return', value }\<close> of the
  \<^verbatim>\<open>return\<close> statement, or a \<^verbatim>\<open>TypeError\<close> of the host (whose message depends on
  the engine and is not modelled).
\<close>

datatype val = Num int | Str string | Bool bool | Undefined | Null | Arr "val list"

datatype exn = Error string | ReturnSignal val | TypeError

datatype 'a outcome = Normal 'a | Throw exn | Unmodelled

definition bindO :: "'a outcome \<Rightarrow> ('a \<Rightarrow> 'b outcome) \<Rightarrow> 'b outcome" where
  "bindO r f = (case r of Normal x \<Rightarrow> f x | Throw e \<Rightarrow> Throw e | Unmodelled \<Rightarrow> Unmodelled)"

text \<open>The largest integer that every operation on numbers treats exactly, \<open>2^53 - 1\<close>.\<close>

definition maxSafe :: int where
  "maxSafe = 9007199254740991"

text \<open>\<^verbatim>\<open>e.message\<close> of a caught value; the thrown return object has no such property.\<close>

definition exnMessage :: "exn \<Rightarrow> string option" where
  "exnMessage e =
     (case e of Error m \<Rightarrow> Some m | ReturnSignal v \<Rightarrow> Some ''undefined'' | TypeError \<Rightarrow> None)"

subsection \<open>Decimal digits\<close>

definition digitChar :: "nat \<Rightarrow> char" where
  "digitChar n = ''0123456789'' ! (n mod 10)"

definition digitVal :: "char \<Rightarrow> nat" where
  "digitVal c = length (takeWhile (\<lambda>d. d \<noteq> c) ''0123456789'')"

function showNat :: "nat \<Rightarrow> string" where
  "showNat n = (if n < 10 then [digitChar n] else showNat (n div 10) @ [digitChar n])"
  by pat_completeness auto
termination
  by (relation "measure id") auto

declare showNat.simps [simp del]

definition showInt :: "int \<Rightarrow> string" where
  "showInt i = (if i < 0 then ''-'' @ showNat (nat (- i)) else showNat (nat i))"

text \<open>\<^verbatim>\<open>Number(ds)\<close> and \<^verbatim>\<open>parseInt(ds, 10)\<close> on a run of decimal digits.\<close>

definition parseNat :: "string \<Rightarrow> nat" where
  "parseNat ds = foldl (\<lambda>a c. 10 * a + digitVal c) 0 ds"

subsection \<open>Conversions of the host\<close>

fun joinWith :: "string \<Rightarrow> string list \<Rightarrow> string" where
  "joinWith sep [] = []"
| "joinWith sep [x] = x"
| "joinWith sep (x # y # ys) = x @ sep @ joinWith sep (y # ys)"

text \<open>
  \<^verbatim>\<open>String(v)\<close>: an array prints its elements separated by commas, \<^verbatim>\<open>null\<close> and
  \<^verbatim>\<open>undefined\<close> elements as the empty string.
\<close>

fun toStringJS :: "val \<Rightarrow> string" where
  "toStringJS (Num n) = showInt n"
| "toStringJS (Str s) = s"
| "toStringJS (Bool b) = (if b then ''true'' else ''false'')"
| "toStringJS Undefined = ''undefined''"
| "toStringJS Null = ''null''"
| "toStringJS (Arr xs) =
     joinWith '',''
       (map (\<lambda>v. if v = Undefined \<or> v = Null then [] else toStringJS v) xs)"

definition hexChar :: "nat \<Rightarrow> char" where
  "hexChar n = ''0123456789abcdef'' ! (n mod 16)"

text \<open>\<^verbatim>\<open>JSON.stringify(s)\<close> of a string.\<close>

definition jsonEscape :: "char \<Rightarrow> string" where
  "jsonEscape c =
     (if c = CHR 0x22 then [CHR 0x5C, CHR 0x22]
      else if c = CHR 0x5C then [CHR 0x5C, CHR 0x5C]
      else if c = CHR 0x08 then [CHR 0x5C, CHR ''b'']
      else if c = CHR 0x0C then [CHR 0x5C, CHR ''f'']
      else if c = CHR 0x0A then [CHR 0x5C, CHR ''n'']
      else if c = CHR 0x0D then [CHR 0x5C, CHR ''r'']
      else if c = CHR 0x09 then [CHR 0x5C, CHR ''t'']
      else if (of_char c :: nat) < 32
        then [CHR 0x5C, CHR ''u'', CHR ''0'', CHR ''0'',
              hexChar (of_char c div 16), hexChar (of_char c)]
      else [c])"

definition jsonString :: "string \<Rightarrow> string" where
  "jsonString s = [CHR 0x22] @ concat (map jsonEscape s) @ [CHR 0x22]"

text \<open>The truth value of a condition and \<^verbatim>\<open>typeof\<close>.\<close>

fun truthy :: "val \<Rightarrow> bool" where
  "truthy (Num n) = (n \<noteq> 0)"
| "truthy (Str s) = (s \<noteq> [])"
| "truthy (Bool b) = b"
| "truthy Undefined = False"
| "truthy Null = False"
| "truthy (Arr xs) = True"

fun typeofJS :: "val \<Rightarrow> string" where
  "typeofJS (Num n) = ''number''"
| "typeofJS (Str s) = ''string''"
| "typeofJS (Bool b) = ''boolean''"
| "typeofJS Undefined = ''undefined''"
| "typeofJS Null = ''object''"
| "typeofJS (Arr xs) = ''object''"

section \<open>Environments and the runtime\<close>

text \<open>
  \<^verbatim>\<open>vars\<close>, \<^verbatim>\<open>consts\<close> and \<^verbatim>\<open>runtime.functions\<close> are plain objects created by
  \<^verbatim>\<open>{}\<close>, and the source tests membership with \<^verbatim>\<open>name in object\<close>, which also finds
  the properties every plain object inherits. Their values are functions of the host,
  so reading one is \<open>Unmodelled\<close>; assigning to \<^verbatim>\<open>__proto__\<close> changes the object's
  prototype and is \<open>Unmodelled\<close> too.
\<close>

definition objectPrototypeKeys :: "string list" where
  "objectPrototypeKeys =
     [''constructor'', ''__defineGetter__'', ''__defineSetter__'', ''hasOwnProperty'',
      ''__lookupGetter__'', ''__lookupSetter__'', ''isPrototypeOf'',
      ''propertyIsEnumerable'', ''toString'', ''valueOf'', ''__proto__'',
      ''toLocaleString'']"

definition hasKey :: "(string \<rightharpoonup> 'a) \<Rightarrow> string \<Rightarrow> bool" where
  "hasKey m n = (n \<in> set objectPrototypeKeys \<or> m n \<noteq> None)"

definition readKey :: "(string \<rightharpoonup> val) \<Rightarrow> string \<Rightarrow> val outcome" where
  "readKey m n =
     (case m n of
        Some v \<Rightarrow> Normal v
      | None \<Rightarrow> if n \<in> set objectPrototypeKeys then Unmodelled else Normal Undefined)"

definition writeKey :: "(string \<rightharpoonup> 'a) \<Rightarrow> string \<Rightarrow> 'a \<Rightarrow> (string \<rightharpoonup> 'a) outcome" where
  "writeKey m n v = (if n = ''__proto__'' then Unmodelled else Normal (m(n \<mapsto> v)))"

text \<open>
  An \<^verbatim>\<open>Environment\<close> without its parent link (the field \<^verbatim>\<open>consts\<close> is written
  \<open>consts'\<close>). A scope is the list of the frames from the current one up to, but
  without, the global one; the global frame is \<^verbatim>\<open>runtime.globalEnv\<close>, the end of
  every chain. The empty list is the global scope itself.
\<close>

record frame =
  vars :: "string \<rightharpoonup> val"
  consts' :: "string \<rightharpoonup> val"

definition newFrame :: frame where
  "newFrame = \<lparr>vars = Map.empty, consts' = Map.empty\<rparr>"

record funcdef =
  params :: "string list"
  bodyStart :: nat
  bodyEnd :: nat
  bodyLines :: "string list"

text \<open>
  The \<^verbatim>\<open>Runtime\<close>; \<^verbatim>\<open>currentEnv\<close> always equals \<^verbatim>\<open>globalEnv\<close> and \<^verbatim>\<open>classes\<close> is
  never used, and \<^verbatim>\<open>interpretBlock\<close> reads neither. The field \<^verbatim>\<open>functions\<close> is
  written \<open>functions'\<close>.
\<close>

record runtime =
  globalEnv :: frame
  functions' :: "string \<rightharpoonup> funcdef"

definition reset :: runtime where
  "reset = \<lparr>globalEnv = newFrame, functions' = Map.empty\<rparr>"

text \<open>\<^verbatim>\<open>Environment.get\<close>: \<^verbatim>\<open>vars\<close>, then \<^verbatim>\<open>consts\<close>, then the parent.\<close>

definition frameGet :: "frame \<Rightarrow> string \<Rightarrow> val outcome option" where
  "frameGet f n =
     (if hasKey (vars f) n then Some (readKey (vars f) n)
      else if hasKey (consts' f) n then Some (readKey (consts' f) n)
      else None)"

fun env_get :: "frame list \<Rightarrow> frame \<Rightarrow> string \<Rightarrow> val outcome" where
  "env_get [] g n =
     (case frameGet g n of
        Some r \<Rightarrow> r
      | None \<Rightarrow> Throw (Error (''Variable \"'' @ n @ ''\" not found'')))"
| "env_get (f # fs) g n =
     (case frameGet f n of
        Some r \<Rightarrow> r
      | None \<Rightarrow> env_get fs g n)"

text \<open>\<^verbatim>\<open>Environment.set\<close>: only \<^verbatim>\<open>vars\<close> is searched, then the parent.\<close>

fun env_set :: "frame list \<Rightarrow> frame \<Rightarrow> string \<Rightarrow> val \<Rightarrow> (frame list \<times> frame) outcome" where
  "env_set [] g n v =
     (if hasKey (vars g) n
      then bindO (writeKey (vars g) n v) (\<lambda>m. Normal ([], g\<lparr>vars := m\<rparr>))
      else Throw (Error (''Variable \"'' @ n @ ''\" not declared'')))"
| "env_set (f # fs) g n v =
     (if hasKey (vars f) n
      then bindO (writeKey (vars f) n v) (\<lambda>m. Normal (f\<lparr>vars := m\<rparr> # fs, g))
      else bindO (env_set fs g n v) (\<lambda>(fs', g'). Normal (f # fs', g')))"

text \<open>
  \<^verbatim>\<open>isDeclared\<close>, \<^verbatim>\<open>declareVar\<close> and \<^verbatim>\<open>declareConst\<close> look at the current frame
  only.
\<close>

definition currentFrame :: "frame list \<Rightarrow> frame \<Rightarrow> frame" where
  "currentFrame fs g = (case fs of [] \<Rightarrow> g | f # _ \<Rightarrow> f)"

definition isDeclared :: "frame list \<Rightarrow> frame \<Rightarrow> string \<Rightarrow> bool" where
  "isDeclared fs g n =
     (hasKey (vars (currentFrame fs g)) n \<or> hasKey (consts' (currentFrame fs g)) n)"

definition frameDeclareVar :: "frame \<Rightarrow> string \<Rightarrow> val \<Rightarrow> frame outcome" where
  "frameDeclareVar f n v = bindO (writeKey (vars f) n v) (\<lambda>m. Normal (f\<lparr>vars := m\<rparr>))"

definition frameDeclareConst :: "frame \<Rightarrow> string \<Rightarrow> val \<Rightarrow> frame outcome" where
  "frameDeclareConst f n v = bindO (writeKey (consts' f) n v) (\<lambda>m. Normal (f\<lparr>consts' := m\<rparr>))"

definition declare_in ::
  "bool \<Rightarrow> frame list \<Rightarrow> frame \<Rightarrow> string \<Rightarrow> val \<Rightarrow> (frame list \<times> frame) outcome" where
  "declare_in isConst fs g n v =
     (let d = (if isConst then frameDeclareConst else frameDeclareVar)
      in case fs of
           [] \<Rightarrow> bindO (d g n v) (\<lambda>g'. Normal ([], g'))
         | f # fs' \<Rightarrow> bindO (d f n v) (\<lambda>f'. Normal (f' # fs', g)))"


section \<open>The expression evaluator\<close>

text \<open>
  \<^verbatim>\<open>evalExpression\<close> trims the text, replaces every match of
  \<^verbatim>\<open>/([a-zA-Z_]\w*(?:\[\d+\])*)/g\<close> by the text of the value it names, and hands
  \<^verbatim>\<open>"use strict";return (\<close>, the text and \<^verbatim>\<open>)\<close> to the host's \<^verbatim>\<open>Function\<close>
  constructor. (The first \<^verbatim>\<open>replace\<close> of the source replaces every match by itself.)

  The matches, left to right: a letter or underscore, the longest run of word
  characters, then the longest run of groups \<^verbatim>\<open>[digits]\<close>.
\<close>

function indexGroups :: "string \<Rightarrow> string list \<times> string" where
  "indexGroups s =
     (if startsWith ''['' s \<and> takeWhile isDigit (tl s) \<noteq> []
         \<and> startsWith '']'' (dropWhile isDigit (tl s))
      then (case indexGroups (tl (dropWhile isDigit (tl s))) of
              (gs, rest) \<Rightarrow> (takeWhile isDigit (tl s) # gs, rest))
      else ([], s))"
  by pat_completeness auto
termination
proof (relation "measure length")
  show "wf (measure length)" by simp
next
  fix s :: string
  assume "startsWith ''['' s \<and> takeWhile isDigit (tl s) \<noteq> []
            \<and> startsWith '']'' (dropWhile isDigit (tl s))"
  then have "s \<noteq> []" by (auto simp: startsWith_def)
  moreover have "length (tl (dropWhile isDigit (tl s))) \<le> length (tl s)"
    using length_dropWhile_le [of isDigit "tl s"] by simp
  ultimately show "(tl (dropWhile isDigit (tl s)), s) \<in> measure length"
    by (cases s) auto
qed

declare indexGroups.simps [simp del]

datatype seg = Lit char | Ref string "string list"

function segments :: "string \<Rightarrow> seg list" where
  "segments [] = []"
| "segments (c # cs) =
     (if isIdentStart c
      then Ref (c # takeWhile isWord cs) (fst (indexGroups (dropWhile isWord cs)))
             # segments (snd (indexGroups (dropWhile isWord cs)))
      else Lit c # segments cs)"
  by pat_completeness auto
termination
proof (relation "measure length")
  show "wf (measure length)" by simp
next
  fix c :: char and cs :: string
  have shorter: "length (snd (indexGroups s)) \<le> length s" for s
  proof (induction s rule: indexGroups.induct)
    case (1 s)
    show ?case
    proof (cases "startsWith ''['' s \<and> takeWhile isDigit (tl s) \<noteq> []
                    \<and> startsWith '']'' (dropWhile isDigit (tl s))")
      case True
      have "length (snd (indexGroups (tl (dropWhile isDigit (tl s)))))
              \<le> length (tl (dropWhile isDigit (tl s)))"
        using "1.IH" True by simp
      also have "\<dots> \<le> length s"
        using length_dropWhile_le [of isDigit "tl s"] by simp
      finally show ?thesis
        using True by (subst indexGroups.simps) (simp add: case_prod_beta)
    next
      case False
      then show ?thesis by (subst indexGroups.simps) auto
    qed
  qed
  have "length (snd (indexGroups (dropWhile isWord cs))) \<le> length (dropWhile isWord cs)"
    by (rule shorter)
  also have "\<dots> \<le> length cs" by (rule length_dropWhile_le)
  finally show "(snd (indexGroups (dropWhile isWord cs)), c # cs) \<in> measure length"
    by simp
next
  fix c :: char and cs :: string
  show "(cs, c # cs) \<in> measure length" by simp
qed

declare segments.simps [simp del]

text \<open>The text of a match: the name followed by its bracketed indices.\<close>

definition matchText :: "string \<Rightarrow> string list \<Rightarrow> string" where
  "matchText ident idxs = ident @ concat (map (\<lambda>d. ''['' @ d @ '']'') idxs)"

text \<open>One index applied to a value, as the loop of the replace callback does.\<close>

definition applyIndex :: "val \<Rightarrow> string \<Rightarrow> val outcome" where
  "applyIndex v ds =
     (let index = parseNat ds
      in if v = Undefined \<or> v = Null
           then Throw (Error ''Cannot index into null or undefined'')
         else if maxSafe < int index then Unmodelled
         else (case v of
                 Str s \<Rightarrow>
                   if length s \<le> index
                   then Throw (Error (''Index '' @ showNat index @ '' out of range for string''))
                   else Normal (Str [s ! index])
               | Arr xs \<Rightarrow>
                   if index < length xs then Normal (xs ! index)
                   else Throw (Error (''Index '' @ showNat index @ '' out of range''))
               | _ \<Rightarrow> Throw (Error (''Cannot index into type '' @ typeofJS v))))"

fun indexAll :: "val \<Rightarrow> string list \<Rightarrow> val outcome" where
  "indexAll v [] = Normal v"
| "indexAll v (d # ds) = bindO (applyIndex v d) (\<lambda>v'. indexAll v' ds)"

text \<open>
  The replace callback: the text that stands for the match, a string quoted by
  \<^verbatim>\<open>JSON.stringify\<close>; whatever goes wrong is thrown again as one \<^verbatim>\<open>Error\<close>.
\<close>

definition resolveRef :: "runtime \<Rightarrow> frame list \<Rightarrow> string \<Rightarrow> string list \<Rightarrow> string outcome" where
  "resolveRef rt env ident idxs =
     (case bindO (env_get env (globalEnv rt) ident) (\<lambda>v. indexAll v idxs) of
        Normal v \<Rightarrow> Normal (case v of Str s \<Rightarrow> jsonString s | _ \<Rightarrow> toStringJS v)
      | Throw e \<Rightarrow>
          (case exnMessage e of
             Some m \<Rightarrow>
               Throw (Error (''Variable or index error: '' @ matchText ident idxs @ '' - '' @ m))
           | None \<Rightarrow> Unmodelled)
      | Unmodelled \<Rightarrow> Unmodelled)"

fun substitute :: "(string \<Rightarrow> string list \<Rightarrow> string outcome) \<Rightarrow> seg list \<Rightarrow> string outcome" where
  "substitute cb [] = Normal []"
| "substitute cb (Lit c # ss) = bindO (substitute cb ss) (\<lambda>t. Normal (c # t))"
| "substitute cb (Ref ident idxs # ss) =
     bindO (cb ident idxs) (\<lambda>txt. bindO (substitute cb ss) (\<lambda>t. Normal (txt @ t)))"

text \<open>
  The host's evaluation of a function body: it returns a value, throws, or does
  something this model does not describe. What it throws does not matter:
  \<^verbatim>\<open>evalExpression\<close> replaces it by its own \<^verbatim>\<open>Error\<close>.
\<close>

type_synonym host = "string \<Rightarrow> val outcome"

definition evalExpression :: "host \<Rightarrow> string \<Rightarrow> runtime \<Rightarrow> frame list \<Rightarrow> val outcome" where
  "evalExpression h expr rt env =
     bindO (substitute (resolveRef rt env) (segments (trim expr)))
       (\<lambda>safeExpr.
          case h (''\"use strict\";return ('' @ safeExpr @ '')'') of
            Normal v \<Rightarrow> Normal v
          | Throw e \<Rightarrow> Throw (Error (''Expression evaluation failed: '' @ trim expr))
          | Unmodelled \<Rightarrow> Unmodelled)"

section \<open>The block interpreter\<close>

text \<open>
  The body of a construct: \<^verbatim>\<open>blockEnd\<close> moves on while the line it points at starts
  with four spaces. The scan looks at the untrimmed lines of the whole array and stops
  at \<^verbatim>\<open>lines.length\<close>.
\<close>

function scanBlock :: "string list \<Rightarrow> nat \<Rightarrow> nat" where
  "scanBlock lines blockEnd =
     (if blockEnd < length lines \<and> startsWith ''    '' (lines ! blockEnd)
      then scanBlock lines (Suc blockEnd)
      else blockEnd)"
  by pat_completeness auto
termination
  by (relation "measure (\<lambda>(lines, blockEnd). length lines - blockEnd)") auto

declare scanBlock.simps [simp del]

text \<open>\<^verbatim>\<open>s.split(',')\<close>.\<close>

fun splitComma :: "string \<Rightarrow> string list" where
  "splitComma [] = [[]]"
| "splitComma (c # cs) =
     (if c = CHR '','' then [] # splitComma cs
      else (case splitComma cs of
              x # xs \<Rightarrow> (c # x) # xs
            | [] \<Rightarrow> [[c]]))"

text \<open>The \<^verbatim>\<open>let\<close> and \<^verbatim>\<open>set\<close> statements.\<close>

definition execDeclare ::
  "bool \<Rightarrow> host \<Rightarrow> string \<Rightarrow> string \<Rightarrow> runtime \<Rightarrow> frame list \<Rightarrow> (runtime \<times> frame list) outcome" where
  "execDeclare isConst h varName expr rt env =
     bindO (evalExpression h expr rt env)
       (\<lambda>v. if isDeclared env (globalEnv rt) varName
             then Throw (Error (''Variable \"'' @ varName @ ''\" already declared''))
             else bindO (declare_in isConst env (globalEnv rt) varName v)
                    (\<lambda>(env', g'). Normal (rt\<lparr>globalEnv := g'\<rparr>, env')))"

text \<open>The assignment: the guard looks at the current scope, \<^verbatim>\<open>env.set\<close> walks up.\<close>

definition execAssign ::
  "host \<Rightarrow> string \<Rightarrow> string \<Rightarrow> runtime \<Rightarrow> frame list \<Rightarrow> (runtime \<times> frame list) outcome" where
  "execAssign h varName expr rt env =
     (if \<not> isDeclared env (globalEnv rt) varName
      then Throw (Error (''Variable \"'' @ varName @ ''\" not declared''))
      else bindO (evalExpression h expr rt env)
             (\<lambda>v. bindO (env_set env (globalEnv rt) varName v)
                     (\<lambda>(env', g'). Normal (rt\<lparr>globalEnv := g'\<rparr>, env'))))"

text \<open>
  The \<^verbatim>\<open>say\<close> statement: the value it pushes. A quoted argument is pushed without
  its first and last character; an error of the evaluation becomes a line of output.
\<close>

definition execSay :: "host \<Rightarrow> string \<Rightarrow> runtime \<Rightarrow> frame list \<Rightarrow> val outcome" where
  "execSay h arg rt env =
     (if isQuoted arg then Normal (Str (butlast (tl arg)))
      else (case evalExpression h arg rt env of
              Normal v \<Rightarrow> Normal (Str (toStringJS v))
            | Throw e \<Rightarrow>
                (case exnMessage e of
                   Some m \<Rightarrow> Normal (Str (''Error in say: '' @ m))
                 | None \<Rightarrow> Unmodelled)
            | Unmodelled \<Rightarrow> Unmodelled))"

text \<open>
  \<^verbatim>\<open>output.push(...blockOutput)\<close>: an array gives its elements, a string its
  characters, anything else is not iterable.
\<close>

definition spread :: "val \<Rightarrow> val list outcome" where
  "spread v =
     (case v of
        Arr xs \<Rightarrow> Normal xs
      | Str s \<Rightarrow> Normal (map (\<lambda>c. Str [c]) s)
      | _ \<Rightarrow> Throw TypeError)"

text \<open>The \<^verbatim>\<open>function\<close> statement: the definition is stored with a copy of its body.\<close>

definition execFunction :: "string \<Rightarrow> string \<Rightarrow> string list \<Rightarrow> nat \<Rightarrow> runtime \<Rightarrow> runtime outcome" where
  "execFunction funcName paramsStr lines i rt =
     (let blockStart = Suc i;
          blockEnd = scanBlock lines blockStart
      in bindO (writeKey (functions' rt) funcName
                  \<lparr>params = (if trim paramsStr \<noteq> [] then map trim (splitComma paramsStr) else []),
                   bodyStart = blockStart,
                   bodyEnd = blockEnd,
                   bodyLines = take (blockEnd - blockStart) (drop blockStart lines)\<rparr>)
           (\<lambda>m. Normal (rt\<lparr>functions' := m\<rparr>)))"

text \<open>
  The call statement up to the run of the body: the function is looked up, the
  arguments are evaluated from left to right in the caller's scope, the arity is
  checked, and the parameters are declared in a new \<^verbatim>\<open>Environment\<close> whose parent is
  \<^verbatim>\<open>runtime.globalEnv\<close>: the scope of the body is this one frame.
\<close>

fun evalArgs :: "host \<Rightarrow> string list \<Rightarrow> runtime \<Rightarrow> frame list \<Rightarrow> val list outcome" where
  "evalArgs h [] rt env = Normal []"
| "evalArgs h (a # as) rt env =
     bindO (evalExpression h (trim a) rt env)
       (\<lambda>v. bindO (evalArgs h as rt env) (\<lambda>vs. Normal (v # vs)))"

fun bindParams :: "frame \<Rightarrow> (string \<times> val) list \<Rightarrow> frame outcome" where
  "bindParams f [] = Normal f"
| "bindParams f ((p, a) # r) = bindO (frameDeclareVar f p a) (\<lambda>f'. bindParams f' r)"

definition prepareCall ::
  "host \<Rightarrow> string \<Rightarrow> string \<Rightarrow> runtime \<Rightarrow> frame list \<Rightarrow> (funcdef \<times> frame list) outcome" where
  "prepareCall h funcName argsStr rt env =
     (if \<not> hasKey (functions' rt) funcName
      then Throw (Error (''Function \"'' @ funcName @ ''\" not found''))
      else bindO (if trim argsStr \<noteq> []
                  then evalArgs h (splitComma argsStr) rt env
                  else Normal [])
             (\<lambda>args.
                case functions' rt funcName of
                  None \<Rightarrow> Throw TypeError
                | Some func \<Rightarrow>
                    if length args \<noteq> length (params func)
                    then Throw (Error (''Function \"'' @ funcName @ ''\" expects ''
                                        @ showNat (length (params func)) @ '' arguments''))
                    else bindO (bindParams newFrame (zip (params func) args))
                           (\<lambda>funcEnv. Normal (func, [funcEnv]))))"

text \<open>
  What the call statement returns from the enclosing \<^verbatim>\<open>interpretBlock\<close>: the property
  \<^verbatim>\<open>output\<close> of what the body returned (no array, string, number or boolean has one;
  reading it from \<^verbatim>\<open>undefined\<close> or \<^verbatim>\<open>null\<close> throws), or the value of a caught
  return object.
\<close>

definition callResult :: "val outcome \<Rightarrow> val outcome" where
  "callResult r =
     (case r of
        Normal v \<Rightarrow> if v = Undefined \<or> v = Null then Throw TypeError else Normal Undefined
      | Throw e \<Rightarrow> (case e of ReturnSignal v \<Rightarrow> Normal v | _ \<Rightarrow> Throw e)
      | Unmodelled \<Rightarrow> Unmodelled)"

text \<open>
  What a block hands back: how it ended, the runtime and the frames of its scope as
  it left them.
\<close>

type_synonym 'a result = "'a outcome \<times> runtime \<times> frame list"

text \<open>
  After a nested block: its frame is dropped and its result is spread into the
  output of the enclosing block.
\<close>

definition afterBlock :: "val list \<Rightarrow> val result \<Rightarrow> (val list) result" where
  "afterBlock out res =
     (case res of (r, rt, fs) \<Rightarrow>
        (bindO r (\<lambda>v. bindO (spread v) (\<lambda>xs. Normal (out @ xs))), rt, tl fs))"

definition continue ::
  "'a result \<Rightarrow> ('a \<Rightarrow> runtime \<Rightarrow> frame list \<Rightarrow> 'b result option) \<Rightarrow> 'b result option" where
  "continue res k =
     (case res of (r, rt, env) \<Rightarrow>
        (case r of
           Normal x \<Rightarrow> k x rt env
         | Throw e \<Rightarrow> Some (Throw e, rt, env)
         | Unmodelled \<Rightarrow> Some (Unmodelled, rt, env)))"

text \<open>
  \<^verbatim>\<open>interpretBlock(lines, start, end, env)\<close>, with the output collected so far and the
  index \<open>i\<close> of the loop as arguments. The first argument bounds the depth of the
  recursion; the result is \<open>None\<close> when it does not suffice, which is how a
  \<^verbatim>\<open>while\<close> loop or a recursion that never ends shows.
\<close>

function (sequential) interpretBlock ::
    "nat \<Rightarrow> host \<Rightarrow> string list \<Rightarrow> nat \<Rightarrow> nat \<Rightarrow> val list \<Rightarrow> runtime \<Rightarrow> frame list
      \<Rightarrow> val result option"
  and repeatLoop ::
    "nat \<Rightarrow> host \<Rightarrow> string list \<Rightarrow> nat \<Rightarrow> nat \<Rightarrow> nat \<Rightarrow> nat \<Rightarrow> val list \<Rightarrow> runtime \<Rightarrow> frame list
      \<Rightarrow> (val list) result option"
  and whileLoop ::
    "nat \<Rightarrow> host \<Rightarrow> string list \<Rightarrow> nat \<Rightarrow> nat \<Rightarrow> string \<Rightarrow> val list \<Rightarrow> runtime \<Rightarrow> frame list
      \<Rightarrow> (val list) result option"
where
  "interpretBlock 0 h lines i e out rt env = None"
| "interpretBlock (Suc k) h lines i e out rt env =
     (if \<not> i < e then Some (Normal (Arr out), rt, env)
      else if length lines \<le> i then Some (Throw TypeError, rt, env)
      else if trim (lines ! i) = [] \<or> startsWith ''#'' (trim (lines ! i))
        then interpretBlock k h lines (Suc i) e out rt env
      else (case classify (trim (lines ! i)) of
          SLet varName expr \<Rightarrow>
            continue (execDeclare False h varName expr rt env, rt, env)
              (\<lambda>(rt', env') _ _. interpretBlock k h lines (Suc i) e out rt' env')
        | SSet varName expr \<Rightarrow>
            continue (execDeclare True h varName expr rt env, rt, env)
              (\<lambda>(rt', env') _ _. interpretBlock k h lines (Suc i) e out rt' env')
        | SAssign varName expr \<Rightarrow>
            continue (execAssign h varName expr rt env, rt, env)
              (\<lambda>(rt', env') _ _. interpretBlock k h lines (Suc i) e out rt' env')
        | SSay arg \<Rightarrow>
            continue (execSay h arg rt env, rt, env)
              (\<lambda>v rt' env'. interpretBlock k h lines (Suc i) e (out @ [v]) rt' env')
        | SIf condExpr \<Rightarrow>
            continue (evalExpression h condExpr rt env, rt, env)
              (\<lambda>condResult _ _.
                 if truthy condResult
                 then (case interpretBlock k h lines (Suc i) (scanBlock lines (Suc i)) []
                              rt (newFrame # env) of
                         None \<Rightarrow> None
                       | Some res \<Rightarrow>
                           continue (afterBlock out res)
                             (\<lambda>out' rt' env'.
                                interpretBlock k h lines (scanBlock lines (Suc i)) e out' rt' env'))
                 else interpretBlock k h lines (scanBlock lines (Suc i)) e out rt env)
        | SElse \<Rightarrow>
            (case interpretBlock k h lines (Suc i) (scanBlock lines (Suc i)) []
                    rt (newFrame # env) of
               None \<Rightarrow> None
             | Some res \<Rightarrow>
                 continue (afterBlock out res)
                   (\<lambda>out' rt' env'.
                      interpretBlock k h lines (scanBlock lines (Suc i)) e out' rt' env'))
        | SRepeat digits \<Rightarrow>
            (if maxSafe < int (parseNat digits) then Some (Unmodelled, rt, env)
             else (case repeatLoop k h lines (Suc i) (scanBlock lines (Suc i)) 0
                          (parseNat digits) out rt env of
                     None \<Rightarrow> None
                   | Some res \<Rightarrow>
                       continue res
                         (\<lambda>out' rt' env'.
                            interpretBlock k h lines (scanBlock lines (Suc i)) e out' rt' env')))
        | SWhile condExpr \<Rightarrow>
            (case whileLoop k h lines (Suc i) (scanBlock lines (Suc i)) condExpr out rt env of
               None \<Rightarrow> None
             | Some res \<Rightarrow>
                 continue res
                   (\<lambda>out' rt' env'.
                      interpretBlock k h lines (scanBlock lines (Suc i)) e out' rt' env'))
        | SFunction funcName paramsStr \<Rightarrow>
            continue (execFunction funcName paramsStr lines i rt, rt, env)
              (\<lambda>rt' _ _. interpretBlock k h lines (scanBlock lines (Suc i)) e out rt' env)
        | SReturn expr \<Rightarrow>
            continue (evalExpression h expr rt env, rt, env)
              (\<lambda>v _ _. Some (Throw (ReturnSignal v), rt, env))
        | SCall funcName argsStr \<Rightarrow>
            continue (prepareCall h funcName argsStr rt env, rt, env)
              (\<lambda>(func, funcEnv) _ _.
                 case interpretBlock k h (bodyLines func) 0 (length (bodyLines func)) []
                        rt funcEnv of
                   None \<Rightarrow> None
                 | Some (r, rt', fs) \<Rightarrow> Some (callResult r, rt', env))
        | SUnknown \<Rightarrow>
            Some (Throw (Error (''Unknown or unsupported statement: '' @ trim (lines ! i))),
                  rt, env)))"
| "repeatLoop 0 h lines blockStart blockEnd c count out rt env = None"
| "repeatLoop (Suc k) h lines blockStart blockEnd c count out rt env =
     (if c < count
      then (case interpretBlock k h lines blockStart blockEnd [] rt (newFrame # env) of
              None \<Rightarrow> None
            | Some res \<Rightarrow>
                continue (afterBlock out res)
                  (\<lambda>out' rt' env'.
                     repeatLoop k h lines blockStart blockEnd (Suc c) count out' rt' env'))
      else Some (Normal out, rt, env))"
| "whileLoop 0 h lines blockStart blockEnd condExpr out rt env = None"
| "whileLoop (Suc k) h lines blockStart blockEnd condExpr out rt env =
     continue (evalExpression h condExpr rt env, rt, env)
       (\<lambda>condResult _ _.
          if truthy condResult
          then (case interpretBlock k h lines blockStart blockEnd [] rt (newFrame # env) of
                  None \<Rightarrow> None
                | Some res \<Rightarrow>
                    continue (afterBlock out res)
                      (\<lambda>out' rt' env'.
                         whileLoop k h lines blockStart blockEnd condExpr out' rt' env'))
          else Some (Normal out, rt, env))"
  by pat_completeness auto
termination
  by (relation "measure (\<lambda>x. case x of
        Inl (k, _) \<Rightarrow> k
      | Inr (Inl (k, _)) \<Rightarrow> k
      | Inr (Inr (k, _)) \<Rightarrow> k)") auto

text \<open>
  \<^verbatim>\<open>interpret(lines)\<close>, written \<open>interpret'\<close>: the runtime is reset and the whole
  program is one block in the global scope. What the caller sees is how that block
  ended: the value it returned or what it threw.
\<close>

definition interpret' :: "nat \<Rightarrow> host \<Rightarrow> string list \<Rightarrow> val outcome option" where
  "interpret' fuel h lines =
     map_option fst (interpretBlock fuel h lines 0 (length lines) [] reset [])"


section \<open>A fragment of the host's evaluator\<close>

text \<open>
  The host evaluates the text \<^verbatim>\<open>"use strict";return (E)\<close>. The fragment \<open>jsHost\<close>
  answers for the texts \<open>E\<close> that are one operand, or two operands with one binary
  operator between them, and is \<open>Unmodelled\<close> on every other text. An operand is a
  decimal integer without a leading zero and not above \<open>2^53 - 1\<close> (with an optional
  minus sign before it), a quoted string without a backslash, \<^verbatim>\<open>true\<close> or
  \<^verbatim>\<open>false\<close>. The operators are \<^verbatim>\<open>+ - *\<close> and the comparisons on numbers,
  \<^verbatim>\<open>+\<close> on strings, and the equalities on two operands of one type. The empty
  text is a syntax error of the host.
\<close>

datatype tok = TNum nat | TStr string | TBool bool | TOp string

definition isOpChar :: "char \<Rightarrow> bool" where
  "isOpChar c = (c \<in> set ''+-*<>=!'')"

function tokens :: "string \<Rightarrow> tok list option" where
  "tokens [] = Some []"
| "tokens (c # cs) =
     (if isSpace c then tokens cs
      else if isDigit c then
        (if (dropWhile isDigit cs \<noteq> []
               \<and> (isWord (hd (dropWhile isDigit cs)) \<or> hd (dropWhile isDigit cs) = CHR ''.''))
            \<or> (c = CHR ''0'' \<and> takeWhile isDigit cs \<noteq> [])
            \<or> maxSafe < int (parseNat (c # takeWhile isDigit cs))
         then None
         else map_option (\<lambda>ts. TNum (parseNat (c # takeWhile isDigit cs)) # ts)
                (tokens (dropWhile isDigit cs)))
      else if isQuote c then
        (if dropWhile (\<lambda>d. d \<noteq> c) cs = []
            \<or> \<not> list_all (\<lambda>d. isDot d \<and> d \<noteq> CHR 0x5C) (takeWhile (\<lambda>d. d \<noteq> c) cs)
         then None
         else map_option (\<lambda>ts. TStr (takeWhile (\<lambda>d. d \<noteq> c) cs) # ts)
                (tokens (tl (dropWhile (\<lambda>d. d \<noteq> c) cs))))
      else if isIdentStart c then
        (if c # takeWhile isWord cs = ''true''
         then map_option (\<lambda>ts. TBool True # ts) (tokens (dropWhile isWord cs))
         else if c # takeWhile isWord cs = ''false''
         then map_option (\<lambda>ts. TBool False # ts) (tokens (dropWhile isWord cs))
         else None)
      else if isOpChar c then
        (if c # takeWhile isOpChar cs
              \<in> set [''+'', ''-'', ''*'', ''<'', ''>'', ''<='', ''>='', ''=='', ''!='', ''==='', ''!=='']
         then map_option (\<lambda>ts. TOp (c # takeWhile isOpChar cs) # ts)
                (tokens (dropWhile isOpChar cs))
         else None)
      else None)"
  by pat_completeness auto
termination
proof (relation "measure length")
  show "wf (measure length)" by simp
next
  fix c :: char and cs :: string
  show "(cs, c # cs) \<in> measure length" by simp
next
  fix c :: char and cs :: string
  show "(dropWhile isDigit cs, c # cs) \<in> measure length"
    using length_dropWhile_le [of isDigit cs] by simp
next
  fix c :: char and cs :: string
  have "length (tl (dropWhile (\<lambda>d. d \<noteq> c) cs)) \<le> length (dropWhile (\<lambda>d. d \<noteq> c) cs)"
    by simp
  also have "\<dots> \<le> length cs" by (rule length_dropWhile_le)
  finally show "(tl (dropWhile (\<lambda>d. d \<noteq> c) cs), c # cs) \<in> measure length" by simp
next
  fix c :: char and cs :: string
  show "(dropWhile isWord cs, c # cs) \<in> measure length"
    using length_dropWhile_le [of isWord cs] by simp
next
  fix c :: char and cs :: string
  show "(dropWhile isWord cs, c # cs) \<in> measure length"
    using length_dropWhile_le [of isWord cs] by simp
next
  fix c :: char and cs :: string
  show "(dropWhile isOpChar cs, c # cs) \<in> measure length"
    using length_dropWhile_le [of isOpChar cs] by simp
qed

fun operand :: "tok list \<Rightarrow> (val \<times> tok list) option" where
  "operand (TNum n # r) = Some (Num (int n), r)"
| "operand (TOp op # TNum n # r) = (if op = ''-'' then Some (Num (- int n), r) else None)"
| "operand (TStr s # r) = Some (Str s, r)"
| "operand (TBool b # r) = Some (Bool b, r)"
| "operand ts = None"

definition safeNum :: "int \<Rightarrow> val option" where
  "safeNum n = (if - maxSafe \<le> n \<and> n \<le> maxSafe then Some (Num n) else None)"

definition equalityOp :: "string \<Rightarrow> bool \<Rightarrow> val option" where
  "equalityOp op same =
     (if op = ''=='' \<or> op = ''==='' then Some (Bool same)
      else if op = ''!='' \<or> op = ''!=='' then Some (Bool (\<not> same))
      else None)"

fun binop :: "string \<Rightarrow> val \<Rightarrow> val \<Rightarrow> val option" where
  "binop op (Num a) (Num b) =
     (if op = ''+'' then safeNum (a + b)
      else if op = ''-'' then safeNum (a - b)
      else if op = ''*'' then safeNum (a * b)
      else if op = ''<'' then Some (Bool (a < b))
      else if op = ''>'' then Some (Bool (b < a))
      else if op = ''<='' then Some (Bool (a \<le> b))
      else if op = ''>='' then Some (Bool (b \<le> a))
      else equalityOp op (a = b))"
| "binop op (Str a) (Str b) =
     (if op = ''+'' then Some (Str (a @ b)) else equalityOp op (a = b))"
| "binop op (Bool a) (Bool b) = equalityOp op (a = b)"
| "binop op v w = None"

definition evalTokens :: "tok list \<Rightarrow> val outcome" where
  "evalTokens ts =
     (if ts = [] then Throw (Error ''SyntaxError'')
      else (case operand ts of
              Some (v, []) \<Rightarrow> Normal v
            | Some (v, TOp op # r) \<Rightarrow>
                (case operand r of
                   Some (w, []) \<Rightarrow>
                     (case binop op v w of Some x \<Rightarrow> Normal x | None \<Rightarrow> Unmodelled)
                 | _ \<Rightarrow> Unmodelled)
            | _ \<Rightarrow> Unmodelled))"

definition jsHost :: host where
  "jsHost body =
     (if startsWith ''\"use strict\";return ('' body \<and> last body = CHR '')''
      then (case tokens (butlast (drop 21 body)) of
              Some ts \<Rightarrow> evalTokens ts
            | None \<Rightarrow> Unmodelled)
      else Unmodelled)"

section \<open>The bound on the recursion\<close>

text \<open>
  \<open>steady a b\<close>: what is known with the bound of \<open>a\<close> stays the same with the bound
  of \<open>b\<close>.
\<close>

definition steady :: "'a option \<Rightarrow> 'a option \<Rightarrow> bool" where
  "steady a b = (case a of None \<Rightarrow> True | Some r \<Rightarrow> b = Some r)"

section \<open>States used in the examples\<close>

text \<open>
  The runtime after \<^verbatim>\<open>set PI = 3\<close>; a runtime in which a function \<^verbatim>\<open>f\<close> with the body
  \<^verbatim>\<open>return y\<close> is defined; and the scope of a block in which \<^verbatim>\<open>let y = 5\<close> was
  executed.
\<close>

definition piRuntime :: runtime where
  "piRuntime = reset\<lparr>globalEnv := newFrame\<lparr>consts' := [''PI'' \<mapsto> Num 3]\<rparr>\<rparr>"

definition readerRuntime :: runtime where
  "readerRuntime =
     reset\<lparr>functions' :=
       [''f'' \<mapsto> \<lparr>params = [], bodyStart = 1, bodyEnd = 2, bodyLines = [''    return y'']\<rparr>]\<rparr>"

definition callerScope :: "frame list" where
  "callerScope = [newFrame\<lparr>vars := [''y'' \<mapsto> Num 5]\<rparr>]"



definition nestedReturn :: "string list" where
  "nestedReturn =
     [''repeat 2:'',
      ''    while 1:'',
      ''        else:'',
      ''            if 1:'',
      ''                return 5'',
      ''say \"after\"'']"

declare interpretBlock.simps [simp del] repeatLoop.simps [simp del] whileLoop.simps [simp del]

section \<open>Facts about the patterns and the scan\<close>



lemma word_not_space: "isWord c \<Longrightarrow> \<not> isSpace c"
  by (auto simp: isWord_def isIdentStart_def isDigit_def isSpace_def)

lemma classify_SAssign: "classify l = SAssign n x \<Longrightarrow> assignMatch l = Some (n, x)"
  by (auto simp: classify_def split: option.splits prod.splits if_splits)

lemma assignMatch_nonblank:
  assumes "assignMatch l = Some (n, x)"
  shows "l \<noteq> [] \<and> \<not> startsWith ''#'' l"
proof -
  have "takeWhile isWord l \<noteq> []"
    using assms by (auto simp: assignMatch_def Let_def split: if_splits)
  then obtain c cs where l: "l = c # cs" and "isWord c"
    by (cases l) (auto split: if_splits)
  then have "c \<noteq> CHR ''#''"
    by (auto simp: isWord_def isIdentStart_def isDigit_def)
  with l show ?thesis by (simp add: startsWith_def)
qed

lemma classify_SCall: "classify l = SCall f a \<Longrightarrow> callMatch l = Some (f, a)"
  by (auto simp: classify_def split: option.splits prod.splits if_splits)

lemma callMatch_nonblank:
  assumes "callMatch l = Some (f, a)"
  shows "l \<noteq> [] \<and> \<not> startsWith ''#'' l"
proof -
  have "takeWhile isWord l \<noteq> []"
    using assms by (auto simp: callMatch_def Let_def split: if_splits)
  then obtain c cs where l: "l = c # cs" and "isWord c"
    by (cases l) (auto split: if_splits)
  then have "c \<noteq> CHR ''#''"
    by (auto simp: isWord_def isIdentStart_def isDigit_def)
  with l show ?thesis by (simp add: startsWith_def)
qed

lemma dropWhile_space_colon:
  "dropWhile isSpace (N @ '':'') = dropWhile isSpace N @ '':''"
  by (induction N) (auto simp: isSpace_def)

lemma not_eq_append_colon:
  "\<not> startsWith ''='' xs \<Longrightarrow> \<not> startsWith ''='' (xs @ '':'')"
  by (cases xs) (auto simp: startsWith_def)

text \<open>
  A line \<^verbatim>\<open>repeat N:\<close> matches no pattern unless \<open>N\<close> is a run of digits (after
  white space) or begins with an equals sign, in which case the line is an assignment
  to a variable named \<open>repeat\<close>.
\<close>

lemma repeat_line_unknown:
  assumes "\<not> startsWith ''='' (dropWhile isSpace N)"
    and "\<not> (dropWhile isSpace N \<noteq> [] \<and> list_all isDigit (dropWhile isSpace N))"
  shows "classify (''repeat '' @ N @ '':'') = SUnknown"
proof -
  let ?l = "''repeat '' @ N @ '':''"
  let ?N = "dropWhile isSpace N"
  have w: "takeWhile isWord ?l = ''repeat''" "dropWhile isWord ?l = '' '' @ N @ '':''"
    by (simp_all add: isWord_def isIdentStart_def isDigit_def)
  have sp: "dropWhile isSpace ('' '' @ N @ '':'') = ?N @ '':''"
    using dropWhile_space_colon [of N] by (simp add: isSpace_def)
  have eq: "\<not> startsWith ''='' (?N @ '':'')"
    using assms(1) by (rule not_eq_append_colon)
  have a: "assignMatch ?l = None"
    using eq by (simp add: assignMatch_def w sp del: append.simps)
  have d: "declMatch ''let'' ?l = None" "declMatch ''set'' ?l = None"
    by (simp_all add: declMatch_def startsWith_def)
  have k: "kwArgMatch ''say'' ?l = None" "kwArgMatch ''return'' ?l = None"
    "kwCondMatch ''if'' ?l = None" "kwCondMatch ''while'' ?l = None"
    by (simp_all add: kwArgMatch_def kwCondMatch_def startsWith_def)
  have f: "funcMatch ?l = None"
    by (simp add: funcMatch_def startsWith_def)
  have c: "callMatch ?l = None"
    by (simp add: callMatch_def w startsWith_def del: append.simps)
  have r: "repeatMatch ?l = None"
  proof (cases "list_all isDigit ?N")
    case True
    with assms(2) have "?N = []" by blast
    then have "takeWhile isDigit (?N @ '':'') = takeWhile isDigit '':''"
      by (simp only: append_Nil)
    then have "takeWhile isDigit (?N @ '':'') = []" by (simp add: isDigit_def)
    then show ?thesis
      using sp by (simp add: repeatMatch_def Let_def)
  next
    case False
    then have "dropWhile isDigit ?N \<noteq> []"
      by (simp add: list_all_iff)
    moreover have "dropWhile isDigit (?N @ '':'') = dropWhile isDigit ?N @ '':''"
      using False by (simp add: dropWhile_append list_all_iff)
    ultimately have "dropWhile isDigit (?N @ '':'') \<noteq> '':''"
      by (cases "dropWhile isDigit ?N") auto
    then show ?thesis
      using sp by (simp add: repeatMatch_def Let_def)
  qed
  have e: "?l \<noteq> ''else:''" by simp
  show ?thesis
    unfolding classify_def using a d k f c r e by (simp del: append.simps)
qed


text \<open>A line that matches one of the patterns is neither empty nor a comment.\<close>

lemma blank_unknown: "l = [] \<or> startsWith ''#'' l \<Longrightarrow> classify l = SUnknown"
proof (cases l)
  case Nil
  then show ?thesis
    by (simp add: classify_def declMatch_def assignMatch_def kwArgMatch_def kwCondMatch_def
        repeatMatch_def funcMatch_def callMatch_def startsWith_def)
next
  case (Cons c cs)
  assume "l = [] \<or> startsWith ''#'' l"
  with Cons have "c = CHR ''#''" by (simp add: startsWith_def)
  with Cons show ?thesis
    by (simp add: classify_def declMatch_def assignMatch_def kwArgMatch_def kwCondMatch_def
        repeatMatch_def funcMatch_def callMatch_def startsWith_def isWord_def isIdentStart_def
        isDigit_def)
qed

lemma classified_nonblank:
  "classify l \<noteq> SUnknown \<Longrightarrow> l \<noteq> [] \<and> \<not> startsWith ''#'' l"
  using blank_unknown by blast

section \<open>Facts about the scope of a call\<close>

lemma bindParams_frame:
  "bindParams f pas = Normal f' \<Longrightarrow>
     consts' f' = consts' f \<and> (\<forall>n. n \<notin> fst ` set pas \<longrightarrow> vars f' n = vars f n)"
proof (induction pas arbitrary: f)
  case Nil
  then show ?case by simp
next
  case (Cons pa pas)
  obtain p a where pa: "pa = (p, a)" by (cases pa)
  from Cons.prems pa obtain f1 where
    f1: "frameDeclareVar f p a = Normal f1" and r: "bindParams f1 pas = Normal f'"
    by (auto simp: bindO_def split: outcome.splits)
  from f1 have "consts' f1 = consts' f \<and> (\<forall>n. n \<noteq> p \<longrightarrow> vars f1 n = vars f n)"
    by (auto simp: frameDeclareVar_def writeKey_def bindO_def split: if_splits)
  with Cons.IH [OF r] pa show ?case by auto
qed

lemma prepareCall_scope:
  assumes "prepareCall h f a rt env = Normal (func, fenv)"
  shows "\<exists>fr. fenv = [fr] \<and> consts' fr = Map.empty \<and> dom (vars fr) \<subseteq> set (params func)"
proof -
  from assms obtain args fr where
    b: "bindParams newFrame (zip (params func) args) = Normal fr" and fenv: "fenv = [fr]"
    by (auto simp: prepareCall_def bindO_def split: if_splits outcome.splits option.splits)
  have "consts' fr = Map.empty"
    using bindParams_frame [OF b] by (simp add: newFrame_def)
  moreover have "dom (vars fr) \<subseteq> set (params func)"
  proof
    fix n assume "n \<in> dom (vars fr)"
    then have "vars fr n \<noteq> None" by auto
    then have "n \<in> fst ` set (zip (params func) args)"
      using bindParams_frame [OF b] by (auto simp: newFrame_def)
    then show "n \<in> set (params func)"
      by (auto dest: set_zip_leftD)
  qed
  ultimately show ?thesis using fenv by simp
qed

lemma trim_ident:
  assumes "isIdentStart c" "list_all isWord cs"
  shows "trim (c # cs) = c # cs"
proof -
  have all: "\<forall>x \<in> set (c # cs). \<not> isSpace x"
    using assms word_not_space by (auto simp: list_all_iff isWord_def)
  then have "dropWhile isSpace (rev (c # cs)) = rev (c # cs)"
    by (metis dropWhile_eq_self_iff hd_in_set rev_is_Nil_conv list.distinct(1) set_rev)
  moreover have "dropWhile isSpace (c # cs) = c # cs"
    using all by simp
  ultimately show ?thesis by (simp add: trim_def)
qed

lemma segments_ident:
  assumes "isIdentStart c" "list_all isWord cs"
  shows "segments (c # cs) = [Ref (c # cs) []]"
proof -
  have tw: "takeWhile isWord cs = cs" and dw: "dropWhile isWord cs = []"
    using assms(2) by (simp_all add: list_all_iff)
  have ig: "indexGroups [] = ([], [])"
    by (subst indexGroups.simps) (simp add: startsWith_def)
  show ?thesis
    using assms(1) by (simp add: segments.simps tw dw ig)
qed

lemma read_unbound_fails:
  assumes "isIdentStart c" "list_all isWord cs"
    and "env_get env (globalEnv rt) (c # cs) = Throw (Error m)"
  shows "evalExpression h (c # cs) rt env =
    Throw (Error (''Variable or index error: '' @ c # cs @ '' - '' @ m))"
  using assms(3)
  by (simp add: evalExpression_def trim_ident [OF assms(1,2)] segments_ident [OF assms(1,2)]
      resolveRef_def bindO_def exnMessage_def matchText_def)


section \<open>A larger bound does not change a result\<close>

lemma steady_refl: "steady a a"
  by (simp add: steady_def split: option.split)

lemma steady_None: "steady None b"
  by (simp add: steady_def)

lemma steady_trans: "steady a b \<Longrightarrow> steady b c \<Longrightarrow> steady a c"
  by (auto simp: steady_def split: option.splits)

lemma steady_bind:
  assumes "steady X X'" and "\<And>res. steady (F res) (F' res)"
  shows "steady (case X of None \<Rightarrow> None | Some res \<Rightarrow> F res)
                (case X' of None \<Rightarrow> None | Some res \<Rightarrow> F' res)"
proof (cases X)
  case None
  then show ?thesis by (simp add: steady_def)
next
  case (Some x)
  with assms(1) have "X' = Some x" by (simp add: steady_def)
  with Some assms(2) [of x] show ?thesis by simp
qed

lemma steady_continue:
  assumes "\<And>x rt env. steady (K x rt env) (K' x rt env)"
  shows "steady (continue res K) (continue res K')"
  using assms by (auto simp: continue_def steady_refl split: prod.splits outcome.splits)

lemma steady_if:
  "steady a a' \<Longrightarrow> steady b b' \<Longrightarrow> steady (if c then a else b) (if c then a' else b')"
  by simp

lemma block_mono:
  assumes b: "\<And>h lines i e out rt env.
      steady (interpretBlock k h lines i e out rt env) (interpretBlock k' h lines i e out rt env)"
    and r: "\<And>h lines bs be c n out rt env.
      steady (repeatLoop k h lines bs be c n out rt env) (repeatLoop k' h lines bs be c n out rt env)"
    and w: "\<And>h lines bs be x out rt env.
      steady (whileLoop k h lines bs be x out rt env) (whileLoop k' h lines bs be x out rt env)"
  shows "steady (interpretBlock (Suc k) h lines i e out rt env)
                (interpretBlock (Suc k') h lines i e out rt env)"
  unfolding interpretBlock.simps
  by (auto intro!: steady_bind steady_continue steady_if b r w steady_refl
      split: stmt.split simp: split_beta)


lemma repeat_mono:
  assumes b: "\<And>h lines i e out rt env.
      steady (interpretBlock k h lines i e out rt env) (interpretBlock k' h lines i e out rt env)"
    and r: "\<And>h lines bs be c n out rt env.
      steady (repeatLoop k h lines bs be c n out rt env) (repeatLoop k' h lines bs be c n out rt env)"
  shows "steady (repeatLoop (Suc k) h lines bs be c n out rt env)
                (repeatLoop (Suc k') h lines bs be c n out rt env)"
  unfolding repeatLoop.simps
  by (auto intro!: steady_bind steady_continue b r steady_refl)

lemma while_mono:
  assumes b: "\<And>h lines i e out rt env.
      steady (interpretBlock k h lines i e out rt env) (interpretBlock k' h lines i e out rt env)"
    and w: "\<And>h lines bs be x out rt env.
      steady (whileLoop k h lines bs be x out rt env) (whileLoop k' h lines bs be x out rt env)"
  shows "steady (whileLoop (Suc k) h lines bs be x out rt env)
                (whileLoop (Suc k') h lines bs be x out rt env)"
  unfolding whileLoop.simps
  by (auto intro!: steady_bind steady_continue b w steady_refl)

lemma fuel_step:
  "(\<forall>h lines i e out rt env.
      steady (interpretBlock k h lines i e out rt env)
             (interpretBlock (Suc k) h lines i e out rt env))
   \<and> (\<forall>h lines bs be c n out rt env.
      steady (repeatLoop k h lines bs be c n out rt env)
             (repeatLoop (Suc k) h lines bs be c n out rt env))
   \<and> (\<forall>h lines bs be x out rt env.
      steady (whileLoop k h lines bs be x out rt env)
             (whileLoop (Suc k) h lines bs be x out rt env))"
proof (induction k)
  case 0
  show ?case by (simp add: steady_None interpretBlock.simps repeatLoop.simps whileLoop.simps)
next
  case (Suc k)
  then have b: "\<And>h lines i e out rt env.
      steady (interpretBlock k h lines i e out rt env)
             (interpretBlock (Suc k) h lines i e out rt env)"
    and r: "\<And>h lines bs be c n out rt env.
      steady (repeatLoop k h lines bs be c n out rt env)
             (repeatLoop (Suc k) h lines bs be c n out rt env)"
    and w: "\<And>h lines bs be x out rt env.
      steady (whileLoop k h lines bs be x out rt env)
             (whileLoop (Suc k) h lines bs be x out rt env)"
    by simp_all
  show ?case
    by (intro conjI allI block_mono repeat_mono while_mono b r w)
qed

lemma fuel_mono:
  "steady (interpretBlock k h lines i e out rt env) (interpretBlock (k + n) h lines i e out rt env)"
proof (induction n)
  case 0
  show ?case by (simp add: steady_refl)
next
  case (Suc n)
  have "steady (interpretBlock (k + n) h lines i e out rt env)
               (interpretBlock (Suc (k + n)) h lines i e out rt env)"
    using fuel_step [of "k + n"] by simp
  with Suc show ?case by (auto intro: steady_trans)
qed

lemma more_fuel:
  assumes "interpret' k h lines = Some r"
  shows "interpret' (k + n) h lines = Some r"
proof -
  from assms obtain res where
    res: "interpretBlock k h lines 0 (length lines) [] reset [] = Some res" and r: "r = fst res"
    by (auto simp: interpret'_def)
  from fuel_mono [of k h lines 0 "length lines" "[]" reset "[]" n] res
  have "interpretBlock (k + n) h lines 0 (length lines) [] reset [] = Some res"
    by (simp add: steady_def)
  with r show ?thesis by (simp add: interpret'_def)
qed

lemma fuel_irrelevant:
  assumes "interpret' k h lines = Some r" and "interpret' k' h lines = Some r'"
  shows "r = r'"
proof (cases "k \<le> k'")
  case True
  then obtain n where "k' = k + n" using le_Suc_ex by blast
  with more_fuel [OF assms(1), of n] assms(2) show ?thesis by simp
next
  case False
  then obtain n where "k = k' + n" using le_Suc_ex [of k' k] by auto
  with more_fuel [OF assms(2), of n] assms(1) show ?thesis by simp
qed

section \<open>Facts about thrown objects\<close>

text \<open>
  \<^verbatim>\<open>evalExpression\<close> throws nothing but an \<^verbatim>\<open>Error\<close>; the end of a body and the
  sequencing of statements hand on what was thrown.
\<close>

lemma resolveRef_throws_Error:
  "resolveRef rt env ident idxs = Throw t \<Longrightarrow> \<exists>m. t = Error m"
  by (auto simp add: resolveRef_def split: outcome.splits option.splits)

lemma substitute_throws_Error:
  "substitute (resolveRef rt env) ss = Throw t \<Longrightarrow> \<exists>m. t = Error m"
proof (induction ss arbitrary: t)
  case Nil
  then show ?case by simp
next
  case (Cons s ss)
  show ?case
  proof (cases s)
    case (Lit c)
    with Cons show ?thesis
      by (auto simp add: bindO_def split: outcome.splits)
  next
    case (Ref ident idxs)
    with Cons resolveRef_throws_Error show ?thesis
      by (auto simp add: bindO_def split: outcome.splits)
  qed
qed

lemma evalExpression_throws_Error:
  "evalExpression h x rt env = Throw t \<Longrightarrow> \<exists>m. t = Error m"
  using substitute_throws_Error
  by (auto simp add: evalExpression_def bindO_def split: outcome.splits)

lemma afterBlock_Throw: "afterBlock out (Throw t, rt, fs) = (Throw t, rt, tl fs)"
  by (simp add: afterBlock_def bindO_def)

lemma continue_Throw: "continue (Throw t, rt, fs) f = Some (Throw t, rt, fs)"
  by (simp add: continue_def)

lemma continue_Normal: "continue (Normal v, rt, fs) f = f v rt fs"
  by (simp add: continue_def)

section \<open>The claims\<close>

text \<open>
  C1 (the code departs from the claim). The \<^verbatim>\<open>else:\<close> statement runs its block
  whatever the \<^verbatim>\<open>if\<close> before it did: with a true condition both blocks run, and the
  program of the claim prints \<^verbatim>\<open>big\<close> and then \<^verbatim>\<open>small\<close>. With a false condition
  only the block of \<^verbatim>\<open>else:\<close> runs. (Here and below, \<open>10 + k\<close> is any bound of at
  least 10 on the depth of the recursion.)
\<close>

theorem C1_if_and_else_both_run:
  "interpret' (10 + k) jsHost
     [''let x = 10'', ''if x > 5:'', ''    say \"big\"'', ''else:'', ''    say \"small\"'']
     = Some (Normal (Arr [Str ''big'', Str ''small'']))
   \<and> interpret' (10 + k) jsHost
     [''let x = 1'', ''if x > 5:'', ''    say \"big\"'', ''else:'', ''    say \"small\"'']
     = Some (Normal (Arr [Str ''small'']))"
  by (intro conjI more_fuel; code_simp)

text \<open>
  C2 (the code departs from the claim). \<^verbatim>\<open>evalExpression\<close> never calls
  \<^verbatim>\<open>parseValue\<close>; it looks up every run of word characters that starts with a letter,
  also inside quotes and inside a number. So \<^verbatim>\<open>let b = true\<close>,
  \<^verbatim>\<open>let s = "hello"\<close> and \<^verbatim>\<open>let n = 1e5\<close> fail with the error of a missing
  variable, before the host's evaluator is reached (the host \<open>h\<close> is arbitrary).
\<close>

theorem C2_literals_are_looked_up:
  "interpret' (2 + k) h [''let b = true'']
     = Some (Throw (Error ''Variable or index error: true - Variable \"true\" not found''))
   \<and> interpret' (2 + k) h [''let s = \"hello\"'']
     = Some (Throw (Error ''Variable or index error: hello - Variable \"hello\" not found''))
   \<and> interpret' (2 + k) h [''let n = 1e5'']
     = Some (Throw (Error ''Variable or index error: e5 - Variable \"e5\" not found''))"
  by (intro conjI more_fuel; code_simp)

text \<open>
  C3 (the code departs from the claim). The assignment first asks \<^verbatim>\<open>isDeclared\<close>,
  which looks at the current scope only, so an assignment to a variable of an
  enclosing scope fails with \<^verbatim>\<open>not declared\<close> and \<^verbatim>\<open>Environment.set\<close> never walks
  up to it.
\<close>

theorem C3_assignment_to_outer_variable_fails:
  "interpret' (10 + k) jsHost [''let x = 1'', ''if x:'', ''    x = 2'']
     = Some (Throw (Error ''Variable \"x\" not declared''))"
  by (rule more_fuel) code_simp

text \<open>
  C4 (the code departs from the claim). The call statement returns from the enclosing
  \<^verbatim>\<open>interpretBlock\<close>: when the body ends without \<^verbatim>\<open>return\<close>, what is returned is the
  property \<^verbatim>\<open>output\<close> of the body's array, which is \<^verbatim>\<open>undefined\<close>. The output
  produced before the call is lost and the statement after the call does not run.
\<close>

theorem C4_call_ends_enclosing_block:
  "interpret' (10 + k) jsHost
     [''function f():'', ''    say \"in\"'', ''say \"before\"'', ''f()'', ''say \"after\"'']
     = Some (Normal Undefined)"
  by (rule more_fuel) code_simp

text \<open>
  C5 (the code departs from the claim). The call catches the return object and
  returns its value from the enclosing block, here the whole program: the run yields
  the number 5 where the claim expects an empty sequence of output lines.
\<close>

theorem C5_run_yields_the_returned_value:
  "interpret' (10 + k) jsHost [''function add(a, b):'', ''    return a + b'', ''add(2, 3)'']
     = Some (Normal (Num 5))"
  by (rule more_fuel) code_simp




text \<open>
  C7, the claim as stated fails. A \<^verbatim>\<open>return\<close> at the top level ends the run with
  the thrown return object itself, and a \<^verbatim>\<open>return\<close> in the body of a function ends
  the block of the body with the same object: there is no error with the message
  \<^verbatim>\<open>return used outside a function body\<close>.
\<close>

theorem C7_counterexample:
  "interpret' 10 jsHost [''return 5''] = Some (Throw (ReturnSignal (Num 5)))
   \<and> interpret' 10 jsHost [''return 5'']
       \<noteq> Some (Throw (Error ''return used outside a function body''))
   \<and> map_option fst (interpretBlock 10 jsHost [''    return 5''] 0 1 [] reset [newFrame])
       = Some (Throw (ReturnSignal (Num 5)))"
  by code_simp

text \<open>
  C7, amended. Wherever a \<^verbatim>\<open>return EXPR\<close> statement is executed and \<open>EXPR\<close> evaluates
  to a value, the block ends by throwing the return object that carries the value.
  Outside a function call nothing catches the object: when the body of an \<^verbatim>\<open>if\<close> or
  of an \<^verbatim>\<open>else\<close>, or an iteration of a \<^verbatim>\<open>repeat\<close> or of a \<^verbatim>\<open>while\<close>, ends by throwing
  an object, the enclosing loop and the enclosing block end by throwing the same
  object, whatever follows the construct, and a run whose outermost block throws an
  object ends with that object. The evaluation of an expression never throws a return
  object, so the handlers that catch what an evaluation throws do not see one. The
  run thus aborts with the very signal that unwinds a function call, not with an
  error of its own.
\<close>

theorem C7_return_object_ends_every_enclosing_block:
  "(i < e \<and> i < length lines \<and> classify (trim (lines ! i)) = SReturn x
      \<and> evalExpression h x rt env = Normal v
    \<longrightarrow> interpretBlock (Suc k) h lines i e out rt env = Some (Throw (ReturnSignal v), rt, env))
   \<and> (i < e \<and> i < length lines \<and> classify (trim (lines ! i)) = SIf condExpr
      \<and> evalExpression h condExpr rt env = Normal w \<and> truthy w
      \<and> interpretBlock k h lines (Suc i) (scanBlock lines (Suc i)) [] rt (newFrame # env)
          = Some (Throw t, rt', fs)
    \<longrightarrow> interpretBlock (Suc k) h lines i e out rt env = Some (Throw t, rt', tl fs))
   \<and> (i < e \<and> i < length lines \<and> classify (trim (lines ! i)) = SElse
      \<and> interpretBlock k h lines (Suc i) (scanBlock lines (Suc i)) [] rt (newFrame # env)
          = Some (Throw t, rt', fs)
    \<longrightarrow> interpretBlock (Suc k) h lines i e out rt env = Some (Throw t, rt', tl fs))
   \<and> (i < e \<and> i < length lines \<and> classify (trim (lines ! i)) = SRepeat digits
      \<and> int (parseNat digits) \<le> maxSafe
      \<and> repeatLoop k h lines (Suc i) (scanBlock lines (Suc i)) 0 (parseNat digits) out rt env
          = Some (Throw t, rt', fs)
    \<longrightarrow> interpretBlock (Suc k) h lines i e out rt env = Some (Throw t, rt', fs))
   \<and> (i < e \<and> i < length lines \<and> classify (trim (lines ! i)) = SWhile condExpr
      \<and> whileLoop k h lines (Suc i) (scanBlock lines (Suc i)) condExpr out rt env
          = Some (Throw t, rt', fs)
    \<longrightarrow> interpretBlock (Suc k) h lines i e out rt env = Some (Throw t, rt', fs))
   \<and> (n < count
      \<and> interpretBlock k h lines blockStart blockEnd [] rt (newFrame # env)
          = Some (Throw t, rt', fs)
    \<longrightarrow> repeatLoop (Suc k) h lines blockStart blockEnd n count out rt env
          = Some (Throw t, rt', tl fs))
   \<and> (evalExpression h condExpr rt env = Normal w \<and> truthy w
      \<and> interpretBlock k h lines blockStart blockEnd [] rt (newFrame # env)
          = Some (Throw t, rt', fs)
    \<longrightarrow> whileLoop (Suc k) h lines blockStart blockEnd condExpr out rt env
          = Some (Throw t, rt', tl fs))
   \<and> (interpretBlock k h lines 0 (length lines) [] reset [] = Some (Throw t, rt', fs)
    \<longrightarrow> interpret' k h lines = Some (Throw t))
   \<and> evalExpression h x rt env \<noteq> Throw (ReturnSignal v)"
proof (intro conjI impI)
  assume a: "i < e \<and> i < length lines \<and> classify (trim (lines ! i)) = SReturn x
      \<and> evalExpression h x rt env = Normal v"
  then show "interpretBlock (Suc k) h lines i e out rt env = Some (Throw (ReturnSignal v), rt, env)"
    using classified_nonblank [of "trim (lines ! i)"]
    by (simp add: interpretBlock.simps continue_Normal)
next
  assume a: "i < e \<and> i < length lines \<and> classify (trim (lines ! i)) = SIf condExpr
      \<and> evalExpression h condExpr rt env = Normal w \<and> truthy w
      \<and> interpretBlock k h lines (Suc i) (scanBlock lines (Suc i)) [] rt (newFrame # env)
          = Some (Throw t, rt', fs)"
  then show "interpretBlock (Suc k) h lines i e out rt env = Some (Throw t, rt', tl fs)"
    using classified_nonblank [of "trim (lines ! i)"]
    by (simp add: interpretBlock.simps continue_Normal continue_Throw afterBlock_Throw)
next
  assume a: "i < e \<and> i < length lines \<and> classify (trim (lines ! i)) = SElse
      \<and> interpretBlock k h lines (Suc i) (scanBlock lines (Suc i)) [] rt (newFrame # env)
          = Some (Throw t, rt', fs)"
  then show "interpretBlock (Suc k) h lines i e out rt env = Some (Throw t, rt', tl fs)"
    using classified_nonblank [of "trim (lines ! i)"]
    by (simp add: interpretBlock.simps continue_Throw afterBlock_Throw)
next
  assume a: "i < e \<and> i < length lines \<and> classify (trim (lines ! i)) = SRepeat digits
      \<and> int (parseNat digits) \<le> maxSafe
      \<and> repeatLoop k h lines (Suc i) (scanBlock lines (Suc i)) 0 (parseNat digits) out rt env
          = Some (Throw t, rt', fs)"
  then show "interpretBlock (Suc k) h lines i e out rt env = Some (Throw t, rt', fs)"
    using classified_nonblank [of "trim (lines ! i)"]
    by (simp add: interpretBlock.simps continue_Throw)
next
  assume a: "i < e \<and> i < length lines \<and> classify (trim (lines ! i)) = SWhile condExpr
      \<and> whileLoop k h lines (Suc i) (scanBlock lines (Suc i)) condExpr out rt env
          = Some (Throw t, rt', fs)"
  then show "interpretBlock (Suc k) h lines i e out rt env = Some (Throw t, rt', fs)"
    using classified_nonblank [of "trim (lines ! i)"]
    by (simp add: interpretBlock.simps continue_Throw)
next
  assume "n < count
      \<and> interpretBlock k h lines blockStart blockEnd [] rt (newFrame # env)
          = Some (Throw t, rt', fs)"
  then show "repeatLoop (Suc k) h lines blockStart blockEnd n count out rt env
      = Some (Throw t, rt', tl fs)"
    by (simp add: repeatLoop.simps continue_Throw afterBlock_Throw)
next
  assume "evalExpression h condExpr rt env = Normal w \<and> truthy w
      \<and> interpretBlock k h lines blockStart blockEnd [] rt (newFrame # env)
          = Some (Throw t, rt', fs)"
  then show "whileLoop (Suc k) h lines blockStart blockEnd condExpr out rt env
      = Some (Throw t, rt', tl fs)"
    by (simp add: whileLoop.simps continue_Normal continue_Throw afterBlock_Throw)
next
  assume "interpretBlock k h lines 0 (length lines) [] reset [] = Some (Throw t, rt', fs)"
  then show "interpret' k h lines = Some (Throw t)"
    by (simp add: interpret'_def)
next
  show "evalExpression h x rt env \<noteq> Throw (ReturnSignal v)"
    using evalExpression_throws_Error by blast
qed

theorem C7_witness:
  "classify (trim (nestedReturn ! 4)) = SReturn ''5''
   \<and> evalExpression jsHost ''5'' reset [newFrame, newFrame, newFrame, newFrame] = Normal (Num 5)
   \<and> interpretBlock (Suc 0) jsHost nestedReturn 4 5 [] reset
        [newFrame, newFrame, newFrame, newFrame]
       = Some (Throw (ReturnSignal (Num 5)), reset, [newFrame, newFrame, newFrame, newFrame])
   \<and> classify (trim (nestedReturn ! 3)) = SIf ''1''
   \<and> evalExpression jsHost ''1'' reset [newFrame, newFrame, newFrame] = Normal (Num 1)
   \<and> truthy (Num 1)
   \<and> scanBlock nestedReturn (Suc 3) = 5
   \<and> interpretBlock (Suc 1) jsHost nestedReturn 3 5 [] reset [newFrame, newFrame, newFrame]
       = Some (Throw (ReturnSignal (Num 5)), reset, [newFrame, newFrame, newFrame])
   \<and> classify (trim (nestedReturn ! 2)) = SElse
   \<and> scanBlock nestedReturn (Suc 2) = 5
   \<and> interpretBlock (Suc 2) jsHost nestedReturn 2 5 [] reset [newFrame, newFrame]
       = Some (Throw (ReturnSignal (Num 5)), reset, [newFrame, newFrame])
   \<and> evalExpression jsHost ''1'' reset [newFrame] = Normal (Num 1)
   \<and> whileLoop (Suc 3) jsHost nestedReturn 2 5 ''1'' [] reset [newFrame]
       = Some (Throw (ReturnSignal (Num 5)), reset, [newFrame])
   \<and> classify (trim (nestedReturn ! 1)) = SWhile ''1''
   \<and> scanBlock nestedReturn (Suc 1) = 5
   \<and> interpretBlock (Suc 4) jsHost nestedReturn 1 5 [] reset [newFrame]
       = Some (Throw (ReturnSignal (Num 5)), reset, [newFrame])
   \<and> (0::nat) < 2
   \<and> repeatLoop (Suc 5) jsHost nestedReturn 1 5 0 2 [] reset []
       = Some (Throw (ReturnSignal (Num 5)), reset, [])
   \<and> classify (trim (nestedReturn ! 0)) = SRepeat ''2''
   \<and> int (parseNat ''2'') \<le> maxSafe
   \<and> scanBlock nestedReturn (Suc 0) = 5
   \<and> interpretBlock (Suc 6) jsHost nestedReturn 0 (length nestedReturn) [] reset []
       = Some (Throw (ReturnSignal (Num 5)), reset, [])
   \<and> interpret' (Suc 6) jsHost nestedReturn = Some (Throw (ReturnSignal (Num 5)))
   \<and> interpret' 10 jsHost [''if 1:'', ''    return 5'', ''say \"after\"'']
       = Some (Throw (ReturnSignal (Num 5)))"
proof -
  note rule = C7_return_object_ends_every_enclosing_block [where h = jsHost and lines = nestedReturn
      and out = "[]" and rt = reset and rt' = reset and t = "ReturnSignal (Num 5)"]
  have len: "length nestedReturn = 6" by (simp add: nestedReturn_def)
  have s4: "scanBlock nestedReturn (Suc 3) = 5" by code_simp
  have s3: "scanBlock nestedReturn (Suc 2) = 5" by code_simp
  have s2: "scanBlock nestedReturn (Suc 1) = 5" by code_simp
  have s1: "scanBlock nestedReturn (Suc 0) = 5" by code_simp
  have a1: "classify (trim (nestedReturn ! 4)) = SReturn ''5''" by code_simp
  have a2: "evalExpression jsHost ''5'' reset [newFrame, newFrame, newFrame, newFrame]
      = Normal (Num 5)"
    by code_simp
  have a3: "interpretBlock (Suc 0) jsHost nestedReturn 4 5 [] reset
        [newFrame, newFrame, newFrame, newFrame]
      = Some (Throw (ReturnSignal (Num 5)), reset, [newFrame, newFrame, newFrame, newFrame])"
    using rule [of 4 5 "''5''" "[newFrame, newFrame, newFrame, newFrame]" "Num 5" 0] a1 a2 len
    by (simp add: eval_nat_numeral)
  have b1: "classify (trim (nestedReturn ! 3)) = SIf ''1''" by code_simp
  have b2: "evalExpression jsHost ''1'' reset [newFrame, newFrame, newFrame] = Normal (Num 1)"
    by code_simp
  have b3: "truthy (Num 1)" by code_simp
  have b4: "interpretBlock (Suc 1) jsHost nestedReturn 3 5 [] reset [newFrame, newFrame, newFrame]
      = Some (Throw (ReturnSignal (Num 5)), reset, [newFrame, newFrame, newFrame])"
    using rule [where i = 3 and e = 5 and condExpr = "''1''" and w = "Num 1" and k = 1
        and env = "[newFrame, newFrame, newFrame]"
        and fs = "[newFrame, newFrame, newFrame, newFrame]"] b1 b2 b3 s4 a3 len
    by (simp add: eval_nat_numeral)
  have c1: "classify (trim (nestedReturn ! 2)) = SElse" by code_simp
  have c2: "interpretBlock (Suc 2) jsHost nestedReturn 2 5 [] reset [newFrame, newFrame]
      = Some (Throw (ReturnSignal (Num 5)), reset, [newFrame, newFrame])"
    using rule [where i = 2 and e = 5 and k = 2 and env = "[newFrame, newFrame]"
        and fs = "[newFrame, newFrame, newFrame]"] c1 s3 b4 len
    by (simp add: eval_nat_numeral)
  have d1: "evalExpression jsHost ''1'' reset [newFrame] = Normal (Num 1)" by code_simp
  have d2: "whileLoop (Suc 3) jsHost nestedReturn 2 5 ''1'' [] reset [newFrame]
      = Some (Throw (ReturnSignal (Num 5)), reset, [newFrame])"
    using rule [where blockStart = 2 and blockEnd = 5 and condExpr = "''1''" and w = "Num 1"
        and k = 3 and env = "[newFrame]" and fs = "[newFrame, newFrame]"] d1 b3 c2
    by (simp add: eval_nat_numeral)
  have e1: "classify (trim (nestedReturn ! 1)) = SWhile ''1''" by code_simp
  have e2: "interpretBlock (Suc 4) jsHost nestedReturn 1 5 [] reset [newFrame]
      = Some (Throw (ReturnSignal (Num 5)), reset, [newFrame])"
    using rule [where i = 1 and e = 5 and condExpr = "''1''" and k = 4 and env = "[newFrame]"
        and fs = "[newFrame]"] e1 s2 d2 len
    by (simp add: eval_nat_numeral)
  have f1: "(0::nat) < 2" by simp
  have f2: "repeatLoop (Suc 5) jsHost nestedReturn 1 5 0 2 [] reset []
      = Some (Throw (ReturnSignal (Num 5)), reset, [])"
    using rule [where blockStart = 1 and blockEnd = 5 and n = 0 and count = 2 and k = 5
        and env = "[]" and fs = "[newFrame]"] e2
    by (simp add: eval_nat_numeral)
  have g1: "classify (trim (nestedReturn ! 0)) = SRepeat ''2''" by code_simp
  have g2: "int (parseNat ''2'') \<le> maxSafe" by code_simp
  have g3: "parseNat ''2'' = 2" by code_simp
  have g4: "interpretBlock (Suc 6) jsHost nestedReturn 0 (length nestedReturn) [] reset []
      = Some (Throw (ReturnSignal (Num 5)), reset, [])"
    using rule [where i = 0 and e = "length nestedReturn" and digits = "''2''" and k = 6
        and env = "[]" and fs = "[]"] g1 g2 g3 s1 f2 len
    by (simp add: eval_nat_numeral)
  have g5: "interpret' (Suc 6) jsHost nestedReturn = Some (Throw (ReturnSignal (Num 5)))"
    using rule [where k = 7 and fs = "[]"] g4
    by (simp add: eval_nat_numeral)
  have g6: "interpret' 10 jsHost [''if 1:'', ''    return 5'', ''say \"after\"'']
      = Some (Throw (ReturnSignal (Num 5)))"
    by code_simp
  from a1 a2 a3 b1 b2 b3 s4 b4 c1 s3 c2 d1 d2 e1 s2 e2 f1 f2 g1 g2 s1 g4 g5 g6
  show ?thesis by blast
qed

text \<open>
  C8. The program \<^verbatim>\<open>set PI = 3\<close>, \<^verbatim>\<open>PI = 4\<close> ends with the error
  \<^verbatim>\<open>Variable "PI" not declared\<close>. In general, in the root scope an assignment to a
  name that is a constant there and not a variable passes the guard, evaluates its
  expression and fails in \<^verbatim>\<open>Environment.set\<close> with the error \<^verbatim>\<open>not declared\<close>; and
  that is the error of an assignment to a name the current scope does not declare at
  all.
\<close>

theorem C8_constant_reassignment_is_not_declared:
  "interpret' (3 + m) jsHost [''set PI = 3'', ''PI = 4'']
     = Some (Throw (Error ''Variable \"PI\" not declared''))
   \<and> (i < e \<and> i < length lines \<and> classify (trim (lines ! i)) = SAssign n x
        \<and> hasKey (consts' (globalEnv rt)) n \<and> \<not> hasKey (vars (globalEnv rt)) n
        \<and> evalExpression h x rt [] = Normal v
      \<longrightarrow> interpretBlock (Suc k) h lines i e out rt []
            = Some (Throw (Error (''Variable \"'' @ n @ ''\" not declared'')), rt, []))
   \<and> (i < e \<and> i < length lines \<and> classify (trim (lines ! i)) = SAssign n x
        \<and> \<not> isDeclared env (globalEnv rt) n
      \<longrightarrow> interpretBlock (Suc k) h lines i e out rt env
            = Some (Throw (Error (''Variable \"'' @ n @ ''\" not declared'')), rt, env))"
proof (intro conjI impI)
  show "interpret' (3 + m) jsHost [''set PI = 3'', ''PI = 4'']
          = Some (Throw (Error ''Variable \"PI\" not declared''))"
    by (rule more_fuel) code_simp
next
  assume a: "i < e \<and> i < length lines \<and> classify (trim (lines ! i)) = SAssign n x
      \<and> hasKey (consts' (globalEnv rt)) n \<and> \<not> hasKey (vars (globalEnv rt)) n
      \<and> evalExpression h x rt [] = Normal v"
  then have "trim (lines ! i) \<noteq> [] \<and> \<not> startsWith ''#'' (trim (lines ! i))"
    using classify_SAssign assignMatch_nonblank by blast
  moreover have "execAssign h n x rt [] = Throw (Error (''Variable \"'' @ n @ ''\" not declared''))"
    using a by (simp add: execAssign_def isDeclared_def currentFrame_def bindO_def)
  ultimately show "interpretBlock (Suc k) h lines i e out rt []
      = Some (Throw (Error (''Variable \"'' @ n @ ''\" not declared'')), rt, [])"
    using a by (simp add: interpretBlock.simps continue_def)
next
  assume a: "i < e \<and> i < length lines \<and> classify (trim (lines ! i)) = SAssign n x
      \<and> \<not> isDeclared env (globalEnv rt) n"
  then have "trim (lines ! i) \<noteq> [] \<and> \<not> startsWith ''#'' (trim (lines ! i))"
    using classify_SAssign assignMatch_nonblank by blast
  then show "interpretBlock (Suc k) h lines i e out rt env
      = Some (Throw (Error (''Variable \"'' @ n @ ''\" not declared'')), rt, env)"
    using a by (simp add: interpretBlock.simps continue_def execAssign_def)
qed

theorem C8_witness:
  "execDeclare True jsHost ''PI'' ''3'' reset [] = Normal (piRuntime, [])
   \<and> (1::nat) < 2 \<and> 1 < length [''set PI = 3'', ''PI = 4'']
   \<and> classify (trim ([''set PI = 3'', ''PI = 4''] ! 1)) = SAssign ''PI'' ''4''
   \<and> hasKey (consts' (globalEnv piRuntime)) ''PI''
   \<and> \<not> hasKey (vars (globalEnv piRuntime)) ''PI''
   \<and> evalExpression jsHost ''4'' piRuntime [] = Normal (Num 4)
   \<and> interpretBlock (Suc 0) jsHost [''set PI = 3'', ''PI = 4''] 1 2 [] piRuntime []
       = Some (Throw (Error ''Variable \"PI\" not declared''), piRuntime, [])"
proof -
  have e3: "evalExpression jsHost ''3'' reset [] = Normal (Num 3)" by code_simp
  have nd: "\<not> isDeclared [] (globalEnv reset) ''PI''" by code_simp
  have g: "globalEnv reset = newFrame" by (simp add: reset_def)
  have c: "consts' newFrame = Map.empty" by (simp add: newFrame_def)
  have h0: "execDeclare True jsHost ''PI'' ''3'' reset [] = Normal (piRuntime, [])"
    using nd
    by (simp add: execDeclare_def e3 bindO_def declare_in_def frameDeclareConst_def
        writeKey_def piRuntime_def g c)
  have h1: "(1::nat) < 2" by simp
  have h2: "1 < length [''set PI = 3'', ''PI = 4'']" by simp
  have h3: "classify (trim ([''set PI = 3'', ''PI = 4''] ! 1)) = SAssign ''PI'' ''4''"
    by code_simp
  have h4: "hasKey (consts' (globalEnv piRuntime)) ''PI''" by code_simp
  have h5: "\<not> hasKey (vars (globalEnv piRuntime)) ''PI''" by code_simp
  have h6: "evalExpression jsHost ''4'' piRuntime [] = Normal (Num 4)" by code_simp
  have "interpretBlock (Suc 0) jsHost [''set PI = 3'', ''PI = 4''] 1 2 [] piRuntime []
       = Some (Throw (Error (''Variable \"'' @ ''PI'' @ ''\" not declared'')), piRuntime, [])"
    using C8_constant_reassignment_is_not_declared
      [where i = 1 and e = 2 and lines = "[''set PI = 3'', ''PI = 4'']" and n = "''PI''"
         and x = "''4''" and rt = piRuntime and h = jsHost and v = "Num 4" and k = 0
         and out = "[]"]
      h1 h2 h3 h4 h5 h6 by blast
  then have "interpretBlock (Suc 0) jsHost [''set PI = 3'', ''PI = 4''] 1 2 [] piRuntime []
       = Some (Throw (Error ''Variable \"PI\" not declared''), piRuntime, [])"
    by simp
  with h0 h1 h2 h3 h4 h5 h6 show ?thesis by blast
qed


text \<open>
  C9. When the call statement has found the function, evaluated the arguments and
  bound the parameters, the scope \<open>fenv\<close> for the body is the one frame that holds the
  parameters, a frame whose parent is the global frame; the scope \<open>env\<close> of the caller
  is no part of it, and the body is run in \<open>fenv\<close>. So a name that is no parameter and
  that the global frame does not hold cannot be read in the body, whatever the
  caller's scope declares: the evaluation of the name fails with the error of a
  missing variable.
\<close>

theorem C9_call_scope_is_parameters_and_globals:
  assumes "prepareCall h f a rt env = Normal (func, fenv)"
    and "isIdentStart c" and "list_all isWord cs"
    and "c # cs \<notin> set (params func)"
    and "frameGet (globalEnv rt) (c # cs) = None"
  shows "(\<exists>fr. fenv = [fr] \<and> consts' fr = Map.empty \<and> dom (vars fr) \<subseteq> set (params func))
    \<and> evalExpression h (c # cs) rt fenv =
      Throw (Error (''Variable or index error: '' @ c # cs
                     @ '' - Variable \"'' @ c # cs @ ''\" not found''))
    \<and> (i < e \<and> i < length lines \<and> classify (trim (lines ! i)) = SCall f a
       \<longrightarrow> interpretBlock (Suc k) h lines i e out rt env
           = (case interpretBlock k h (bodyLines func) 0 (length (bodyLines func)) [] rt fenv of
                None \<Rightarrow> None
              | Some (r, rt', fs) \<Rightarrow> Some (callResult r, rt', env)))"
proof (intro conjI impI)
  from prepareCall_scope [OF assms(1)] obtain fr where
    fr: "fenv = [fr]" "consts' fr = Map.empty" "dom (vars fr) \<subseteq> set (params func)"
    by blast
  then show "\<exists>fr. fenv = [fr] \<and> consts' fr = Map.empty \<and> dom (vars fr) \<subseteq> set (params func)"
    by blast
  have np: "c # cs \<notin> set objectPrototypeKeys"
    using assms(5) by (auto simp: frameGet_def hasKey_def split: if_splits)
  have "vars fr (c # cs) = None"
    using fr(3) assms(4) by blast
  then have "frameGet fr (c # cs) = None"
    using fr(2) np by (simp add: frameGet_def hasKey_def)
  then have "env_get fenv (globalEnv rt) (c # cs) =
      Throw (Error (''Variable \"'' @ c # cs @ ''\" not found''))"
    using fr(1) assms(5) by simp
  from read_unbound_fails [OF assms(2,3) this]
  show "evalExpression h (c # cs) rt fenv =
      Throw (Error (''Variable or index error: '' @ c # cs
                     @ '' - Variable \"'' @ c # cs @ ''\" not found''))"
    by simp
next
  assume a: "i < e \<and> i < length lines \<and> classify (trim (lines ! i)) = SCall f a"
  then have "trim (lines ! i) \<noteq> [] \<and> \<not> startsWith ''#'' (trim (lines ! i))"
    using classify_SCall callMatch_nonblank by blast
  then show "interpretBlock (Suc k) h lines i e out rt env
      = (case interpretBlock k h (bodyLines func) 0 (length (bodyLines func)) [] rt fenv of
           None \<Rightarrow> None
         | Some (r, rt', fs) \<Rightarrow> Some (callResult r, rt', env))"
    using a assms(1) by (simp add: interpretBlock.simps continue_def)
qed

theorem C9_witness:
  "prepareCall jsHost ''f'' [] readerRuntime callerScope
     = Normal (\<lparr>params = [], bodyStart = 1, bodyEnd = 2, bodyLines = [''    return y'']\<rparr>,
               [newFrame])
   \<and> isIdentStart CHR ''y'' \<and> list_all isWord []
   \<and> ''y'' \<notin> set (params \<lparr>params = [], bodyStart = 1, bodyEnd = 2,
                            bodyLines = [''    return y'']\<rparr>)
   \<and> frameGet (globalEnv readerRuntime) ''y'' = None
   \<and> env_get callerScope (globalEnv readerRuntime) ''y'' = Normal (Num 5)
   \<and> evalExpression jsHost ''y'' readerRuntime [newFrame]
       = Throw (Error ''Variable or index error: y - Variable \"y\" not found'')
   \<and> (4::nat) < 5
   \<and> 4 < length [''function f():'', ''    return y'', ''if 1:'', ''    let y = 5'', ''    f()'']
   \<and> classify (trim ([''function f():'', ''    return y'', ''if 1:'', ''    let y = 5'',
                       ''    f()''] ! 4)) = SCall ''f'' []
   \<and> interpretBlock (Suc 1) jsHost
        [''function f():'', ''    return y'', ''if 1:'', ''    let y = 5'', ''    f()'']
        4 5 [] readerRuntime callerScope
       = Some (Throw (Error ''Variable or index error: y - Variable \"y\" not found''),
               readerRuntime, callerScope)
   \<and> interpret' 10 jsHost
        [''function f():'', ''    return y'', ''if 1:'', ''    let y = 5'', ''    f()'']
       = Some (Throw (Error ''Variable or index error: y - Variable \"y\" not found''))"
proof -
  let ?func = "\<lparr>params = [], bodyStart = 1, bodyEnd = 2, bodyLines = [''    return y'']\<rparr>"
  let ?P = "[''function f():'', ''    return y'', ''if 1:'', ''    let y = 5'', ''    f()'']"
  have hk: "hasKey (functions' readerRuntime) ''f''" by code_simp
  have fl: "functions' readerRuntime ''f'' = Some ?func"
    by (simp add: readerRuntime_def)
  have tr: "trim [] = []" by (simp add: trim_def)
  have h1: "prepareCall jsHost ''f'' [] readerRuntime callerScope = Normal (?func, [newFrame])"
    by (simp add: prepareCall_def hk fl tr bindO_def)
  have h2: "isIdentStart CHR ''y''" by code_simp
  have h3: "list_all isWord []" by simp
  have h4: "''y'' \<notin> set (params ?func)" by simp
  have h5: "frameGet (globalEnv readerRuntime) ''y'' = None" by code_simp
  have h6: "env_get callerScope (globalEnv readerRuntime) ''y'' = Normal (Num 5)" by code_simp
  note inst = C9_call_scope_is_parameters_and_globals [OF h1 h2 h3 h4 h5,
      where i = 4 and e = 5 and lines = "?P" and k = 1 and out = "[]"]
  have h7: "evalExpression jsHost ''y'' readerRuntime [newFrame]
       = Throw (Error ''Variable or index error: y - Variable \"y\" not found'')"
    using inst by simp
  have g1: "(4::nat) < 5" by simp
  have g2: "4 < length ?P" by simp
  have g3: "classify (trim (?P ! 4)) = SCall ''f'' []" by code_simp
  have cl: "classify (trim (''    return y'')) = SReturn ''y''" by code_simp
  have nb: "trim (''    return y'') \<noteq> [] \<and> \<not> startsWith ''#'' (trim (''    return y''))"
    by code_simp
  have body: "interpretBlock (Suc 0) jsHost [''    return y''] 0 (Suc 0) [] readerRuntime [newFrame]
      = Some (Throw (Error ''Variable or index error: y - Variable \"y\" not found''),
              readerRuntime, [newFrame])"
    using nb by (simp add: interpretBlock.simps cl h7 continue_def)
  have "interpretBlock (Suc 1) jsHost ?P 4 5 [] readerRuntime callerScope
      = (case interpretBlock 1 jsHost (bodyLines ?func) 0 (length (bodyLines ?func)) []
                readerRuntime [newFrame] of
           None \<Rightarrow> None
         | Some (r, rt', fs) \<Rightarrow> Some (callResult r, rt', callerScope))"
    using inst g1 g2 g3 by blast
  then have g4: "interpretBlock (Suc 1) jsHost ?P 4 5 [] readerRuntime callerScope
       = Some (Throw (Error ''Variable or index error: y - Variable \"y\" not found''),
               readerRuntime, callerScope)"
    by (simp add: body callResult_def)
  have h8: "interpret' 10 jsHost ?P
       = Some (Throw (Error ''Variable or index error: y - Variable \"y\" not found''))"
    by code_simp
  from h1 h2 h3 h4 h5 h6 h7 g1 g2 g3 g4 h8 show ?thesis by blast
qed

text \<open>
  C10. A line \<^verbatim>\<open>repeat N:\<close> in which \<open>N\<close> is not a run of decimal digits (a name,
  or any text that does not begin with an equals sign) matches no statement form and
  the block fails with the error for an unknown statement. A line \<^verbatim>\<open>repeat 0:\<close> is
  accepted; its body is not executed, and the block goes on after the body with its
  output, the runtime and the scope unchanged.
\<close>

theorem C10_repeat_needs_literal_digits:
  assumes "i < e" and "i < length lines"
  shows "(trim (lines ! i) = ''repeat '' @ N @ '':''
          \<and> \<not> startsWith ''='' (dropWhile isSpace N)
          \<and> \<not> (dropWhile isSpace N \<noteq> [] \<and> list_all isDigit (dropWhile isSpace N))
        \<longrightarrow> interpretBlock (Suc k) h lines i e out rt env
              = Some (Throw (Error (''Unknown or unsupported statement: repeat '' @ N @ '':'')),
                      rt, env))
     \<and> (trim (lines ! i) = ''repeat 0:''
        \<longrightarrow> interpretBlock (Suc (Suc k)) h lines i e out rt env
              = interpretBlock (Suc k) h lines (scanBlock lines (Suc i)) e out rt env)"
proof (intro conjI impI)
  assume a: "trim (lines ! i) = ''repeat '' @ N @ '':''
      \<and> \<not> startsWith ''='' (dropWhile isSpace N)
      \<and> \<not> (dropWhile isSpace N \<noteq> [] \<and> list_all isDigit (dropWhile isSpace N))"
  then have "classify (''repeat '' @ N @ '':'') = SUnknown"
    using repeat_line_unknown by blast
  then show "interpretBlock (Suc k) h lines i e out rt env
      = Some (Throw (Error (''Unknown or unsupported statement: repeat '' @ N @ '':'')), rt, env)"
    using assms a by (simp add: interpretBlock.simps startsWith_def)
next
  assume a: "trim (lines ! i) = ''repeat 0:''"
  have c: "classify ''repeat 0:'' = SRepeat ''0''" by code_simp
  have p: "parseNat ''0'' = 0" by code_simp
  show "interpretBlock (Suc (Suc k)) h lines i e out rt env
      = interpretBlock (Suc k) h lines (scanBlock lines (Suc i)) e out rt env"
    using assms a c p
    by (simp add: interpretBlock.simps repeatLoop.simps startsWith_def maxSafe_def continue_def)
qed

theorem C10_witness:
  "(0::nat) < 1 \<and> 0 < length [''repeat n:'']
   \<and> trim ([''repeat n:''] ! 0) = ''repeat '' @ ''n'' @ '':''
   \<and> \<not> startsWith ''='' (dropWhile isSpace ''n'')
   \<and> \<not> (dropWhile isSpace ''n'' \<noteq> [] \<and> list_all isDigit (dropWhile isSpace ''n''))
   \<and> interpretBlock (Suc 0) jsHost [''repeat n:''] 0 1 [] reset []
       = Some (Throw (Error ''Unknown or unsupported statement: repeat n:''), reset, [])
   \<and> (0::nat) < 3 \<and> 0 < length [''repeat 0:'', ''    say \"x\"'', ''say \"y\"'']
   \<and> trim ([''repeat 0:'', ''    say \"x\"'', ''say \"y\"''] ! 0) = ''repeat 0:''
   \<and> interpretBlock (Suc (Suc 1)) jsHost [''repeat 0:'', ''    say \"x\"'', ''say \"y\"''] 0 3 []
        reset []
       = interpretBlock (Suc 1) jsHost [''repeat 0:'', ''    say \"x\"'', ''say \"y\"'']
           (scanBlock [''repeat 0:'', ''    say \"x\"'', ''say \"y\"''] (Suc 0)) 3 [] reset []
   \<and> interpret' 3 jsHost [''repeat 0:'', ''    say \"x\"'', ''say \"y\"'']
       = Some (Normal (Arr [Str ''y'']))"
proof -
  let ?Q = "[''repeat 0:'', ''    say \"x\"'', ''say \"y\"'']"
  have a1: "(0::nat) < 1" by simp
  have a2: "0 < length [''repeat n:'']" by simp
  have a3: "trim ([''repeat n:''] ! 0) = ''repeat '' @ ''n'' @ '':''" by code_simp
  have a4: "\<not> startsWith ''='' (dropWhile isSpace ''n'')" by code_simp
  have a5: "\<not> (dropWhile isSpace ''n'' \<noteq> [] \<and> list_all isDigit (dropWhile isSpace ''n''))"
    by code_simp
  have "interpretBlock (Suc 0) jsHost [''repeat n:''] 0 1 [] reset []
       = Some (Throw (Error (''Unknown or unsupported statement: repeat '' @ ''n'' @ '':'')),
               reset, [])"
    using C10_repeat_needs_literal_digits [OF a1 a2, where N = "''n''"] a3 a4 a5 by blast
  then have a6: "interpretBlock (Suc 0) jsHost [''repeat n:''] 0 1 [] reset []
       = Some (Throw (Error ''Unknown or unsupported statement: repeat n:''), reset, [])"
    by simp
  have b1: "(0::nat) < 3" by simp
  have b2: "0 < length ?Q" by simp
  have b3: "trim (?Q ! 0) = ''repeat 0:''" by code_simp
  have b4: "interpretBlock (Suc (Suc 1)) jsHost ?Q 0 3 [] reset []
       = interpretBlock (Suc 1) jsHost ?Q (scanBlock ?Q (Suc 0)) 3 [] reset []"
    using C10_repeat_needs_literal_digits [OF b1 b2] b3 by blast
  have b5: "interpret' 3 jsHost ?Q = Some (Normal (Arr [Str ''y'']))" by code_simp
  from a1 a2 a3 a4 a5 a6 b1 b2 b3 b4 b5 show ?thesis by blast
qed

end
